theory Spec2Isabelle
  imports Main "HOL-Library.Word"
begin

unbundle bit_operations_syntax

section \<open>The target, the bytecode catalog and the interpreter state\<close>

text \<open>
  The file \<^verbatim>\<open>src/interpreter/interpreter-assembler.cc\<close> emits, for one bytecode, the
  machine operations of its handler. The embedding reads every emitting function as the
  value (or the state change) the emitted operations compute when the handler runs.

  A pointer-sized machine word is a \<open>'w word\<close>; V8 builds for \<open>'w = 32\<close> and \<open>'w = 64\<close>.
  \<^verbatim>\<open>kPointerSize\<close> and \<^verbatim>\<open>kPointerSizeLog2\<close> are the constants of \<^verbatim>\<open>globals.h\<close>.
\<close>

definition kPointerSize :: "'w::len itself \<Rightarrow> nat" where
  "kPointerSize _ = LENGTH('w) div 8"

definition kPointerSizeLog2 :: "'w::len itself \<Rightarrow> nat" where
  "kPointerSizeLog2 _ = (if LENGTH('w) = 64 then 3 else 2)"

definition kBitsPerByte :: nat where
  "kBitsPerByte = 8"

datatype arch = MIPS | MIPS64 | ARM | ARM64 | PPC | IA32 | X64 | X87

datatype OperandSize = kNone | kByte | kShort

datatype MachineType = Int8 | Uint8 | Int16 | Uint16 | Pointer | AnyTagged

datatype InterpreterDispatchDescriptor =
    kAccumulatorParameter
  | kRegisterFileParameter
  | kBytecodeOffsetParameter
  | kBytecodeArrayParameter
  | kDispatchTableParameter
  | kContextParameter

datatype FunctionId =
    kInterpreterTraceBytecodeEntry
  | kInterpreterTraceBytecodeExit
  | kStackGuard
  | kAbort

text \<open>
  What a call leaves the interpreter for: one of the three stubs of \<^verbatim>\<open>CodeFactory\<close>
  (the C entry stub with its result size) or a runtime function called by its id.
\<close>

datatype callee =
    InterpreterPushArgsAndCall
  | InterpreterPushArgsAndConstruct
  | InterpreterCEntry int
  | RuntimeFunction FunctionId

type_synonym 'w memory = "'w word \<Rightarrow> 8 word"

text \<open>
  Everything the file takes from the rest of the engine is a field of the environment:
  \<^item> the build flag \<^verbatim>\<open>DEBUG\<close> (it enables \<^verbatim>\<open>DCHECK\<close>) and the runtime flags
    \<^verbatim>\<open>FLAG_debug_code\<close> and \<^verbatim>\<open>FLAG_trace_ignition\<close>;
  \<^item> the target: its byte order, its architecture, and whether the CPU supports
    \<^verbatim>\<open>UNALIGNED_ACCESSES\<close>;
  \<^item> the bytecode catalog \<^verbatim>\<open>Bytecodes::\<close> of \<^verbatim>\<open>bytecodes.h\<close>, over the operand types
    \<open>'ot\<close> it declares; a bytecode is its byte, and indices, offsets and sizes are C++
    \<^verbatim>\<open>int\<close>s;
  \<^item> the two frame offsets of \<^verbatim>\<open>InterpreterFrameConstants\<close>, the operand of
    \<^verbatim>\<open>Register::current_context()\<close>, the bailout reason \<^verbatim>\<open>kUnexpectedStackPointer\<close>;
  \<^item> Smi tagging, the address of the stack limit, the runtime function table with the size
    of its entries and the offset of \<^verbatim>\<open>entry\<close> in them, the exit trampoline;
  \<^item> the behaviour of every callee: given the arguments, the memory and the native stack
    pointer at the call, it returns the result, the memory and the stack pointer at the
    return.
\<close>

record (overloaded) ('w, 'ot) env =
  DEBUG :: bool
  FLAG_debug_code :: bool
  FLAG_trace_ignition :: bool
  V8_TARGET_LITTLE_ENDIAN :: bool
  V8_TARGET_ARCH :: arch
  UNALIGNED_ACCESSES :: bool
  NumberOfOperands :: "8 word \<Rightarrow> int"
  GetOperandSize :: "8 word \<Rightarrow> int \<Rightarrow> OperandSize"
  GetOperandType :: "8 word \<Rightarrow> int \<Rightarrow> 'ot"
  GetOperandOffset :: "8 word \<Rightarrow> int \<Rightarrow> int"
  IsRegisterOperandType :: "'ot \<Rightarrow> bool"
  SizeOfOperand :: "'ot \<Rightarrow> OperandSize"
  Size :: "8 word \<Rightarrow> int"
  kBytecodeOffsetFromRegisterPointer :: int
  kDispatchTableFromRegisterPointer :: int
  current_context_ToOperand :: int
  kUnexpectedStackPointer :: int
  SmiTag :: "'w word \<Rightarrow> 'w word"
  address_of_stack_limit :: "'w word"
  runtime_function_table_address :: "'w word"
  sizeof_Runtime_Function :: int
  offsetof_Runtime_Function_entry :: int
  InterpreterExitTrampoline :: "'w word"
  run_callee :: "callee \<Rightarrow> 'w word list \<Rightarrow> 'w memory \<Rightarrow> 'w word
                 \<Rightarrow> 'w word \<times> 'w memory \<times> 'w word"

text \<open>
  The state a handler's operations run on:
  \<^item> the assembler's fields: \<^verbatim>\<open>bytecode_\<close>, \<^verbatim>\<open>disable_stack_check_across_call_\<close> and
    \<^verbatim>\<open>stack_pointer_before_call_\<close> (\<open>None\<close> is \<^verbatim>\<open>nullptr\<close>), written with the suffix
    \<open>field\<close>, and the variables \<^verbatim>\<open>accumulator_\<close>, \<^verbatim>\<open>context_\<close> and \<^verbatim>\<open>dispatch_table_\<close>,
    written with the suffix \<open>var\<close> (an Isabelle name cannot end in an underscore);
  \<^item> the six parameters of the handler;
  \<^item> the machine: the byte-addressed memory, the native stack pointer, and the log of the
    calls made so far, oldest first.
\<close>

record (overloaded) 'w state =
  bytecode_field :: "8 word"
  accumulator_var :: "'w word"
  context_var :: "'w word"
  dispatch_table_var :: "'w word"
  disable_stack_check_across_call_field :: bool
  stack_pointer_before_call_field :: "'w word option"
  Parameter :: "InterpreterDispatchDescriptor \<Rightarrow> 'w word"
  memory :: "'w memory"
  stack_pointer :: "'w word"
  calls :: "(callee \<times> 'w word list) list"

text \<open>How a handler's code path ends: a tail call, a return, or a failed check of the
  assembler itself (a \<^verbatim>\<open>DCHECK\<close> of a debug build, \<^verbatim>\<open>UNREACHABLE\<close>).\<close>

datatype 'v exit = TailCall 'v "'v list" | Return 'v | Fatal

definition DCHECK :: "('w::len, 'ot) env \<Rightarrow> bool \<Rightarrow> bool" where
  "DCHECK e c \<longleftrightarrow> \<not> DEBUG e \<or> c"

section \<open>The operations of the code-emission backend\<close>

text \<open>
  Modelled from the spec: the memory that the typed loads and stores of
  \<^verbatim>\<open>CodeStubAssembler\<close> work on. The file composes the primitive operations of that
  class, which are not in it; section 6 of the spec lists them. The memory is
  byte-addressed, and a value of several bytes lies in it in the target's byte order (low
  byte first on a little-endian target, high byte first on a big-endian one).
\<close>

fun read_bytes :: "'w::len memory \<Rightarrow> 'w word \<Rightarrow> nat \<Rightarrow> 8 word list" where
  "read_bytes m a 0 = []"
| "read_bytes m a (Suc n) = m a # read_bytes m (a + 1) n"

fun write_bytes :: "'w::len memory \<Rightarrow> 'w word \<Rightarrow> 8 word list \<Rightarrow> 'w memory" where
  "write_bytes m a [] = m"
| "write_bytes m a (b # bs) = write_bytes (m(a := b)) (a + 1) bs"

fun from_le_bytes :: "8 word list \<Rightarrow> 'b::len word" where
  "from_le_bytes [] = 0"
| "from_le_bytes (b # bs) = ucast b OR push_bit 8 (from_le_bytes bs)"

definition to_le_bytes :: "'b::len word \<Rightarrow> nat \<Rightarrow> 8 word list" where
  "to_le_bytes v n = map (\<lambda>i. ucast (drop_bit (8 * i) v)) [0..<n]"

definition load_int :: "bool \<Rightarrow> 'w::len memory \<Rightarrow> 'w word \<Rightarrow> nat \<Rightarrow> 'b::len word" where
  "load_int le m a n =
     (let bs = read_bytes m a n in from_le_bytes (if le then bs else rev bs))"

definition store_int :: "bool \<Rightarrow> 'w::len memory \<Rightarrow> 'w word \<Rightarrow> nat \<Rightarrow> 'b::len word \<Rightarrow> 'w memory" where
  "store_int le m a n v =
     (let bs = to_le_bytes v n in write_bytes m a (if le then bs else rev bs))"

text \<open>
  Modelled from the spec: the typed load and the barrier-free store of a tagged value
  (section 4.2: an unsigned or a signed load of 8 or 16 bits; section 4.3: loads and stores
  of tagged values). A loaded value of 8 or 16 bits has 32-bit representation: it is
  extended to 32 bits by its signedness and held zero-extended in the pointer-sized word.
\<close>

definition Load :: "('w::len, 'ot) env \<Rightarrow> 'w state \<Rightarrow> MachineType \<Rightarrow> 'w word \<Rightarrow> 'w word \<Rightarrow> 'w word" where
  "Load e s rep base index =
     (let le = V8_TARGET_LITTLE_ENDIAN e; m = memory s; a = base + index in
      case rep of
        Int8 \<Rightarrow> ucast (scast (load_int le m a 1 :: 8 word) :: 32 word)
      | Uint8 \<Rightarrow> ucast (load_int le m a 1 :: 8 word)
      | Int16 \<Rightarrow> ucast (scast (load_int le m a 2 :: 16 word) :: 32 word)
      | Uint16 \<Rightarrow> ucast (load_int le m a 2 :: 16 word)
      | Pointer \<Rightarrow> load_int le m a (kPointerSize TYPE('w))
      | AnyTagged \<Rightarrow> load_int le m a (kPointerSize TYPE('w)))"

definition StoreNoWriteBarrier :: "('w::len, 'ot) env \<Rightarrow> 'w state \<Rightarrow> 'w word \<Rightarrow> 'w word \<Rightarrow> 'w word \<Rightarrow> 'w state" where
  "StoreNoWriteBarrier e s base index v =
     s\<lparr>memory := store_int (V8_TARGET_LITTLE_ENDIAN e) (memory s) (base + index)
                   (kPointerSize TYPE('w)) v\<rparr>"

text \<open>
  Modelled from the spec: constants, integer arithmetic, shifts and compares. An
  \<^verbatim>\<open>Int32Constant\<close> is a 32-bit immediate and enters pointer-sized arithmetic
  sign-extended (\<^verbatim>\<open>NextRegister\<close> adds the constant \<open>-1\<close>). The operations named
  \<^verbatim>\<open>Word32\<close> and \<^verbatim>\<open>Int32\<close> work on the low 32 bits and leave a value of 32-bit
  representation; \<^verbatim>\<open>ChangeInt32ToInt64\<close> sign-extends the low 32 bits. A compare yields
  1 or 0, and a branch takes its first label when the condition is not 0.
\<close>

definition Int32Constant :: "int \<Rightarrow> 'w::len word" where
  "Int32Constant c = scast (word_of_int c :: 32 word)"

definition IntPtrAdd :: "'w::len word \<Rightarrow> 'w word \<Rightarrow> 'w word" where
  "IntPtrAdd a b = a + b"

definition WordShl :: "'w::len word \<Rightarrow> nat \<Rightarrow> 'w word" where
  "WordShl x n = push_bit n x"

definition WordOr :: "'w::len word \<Rightarrow> 'w word \<Rightarrow> 'w word" where
  "WordOr a b = a OR b"

definition Word32Shl :: "'w::len word \<Rightarrow> 'w word \<Rightarrow> 'w word" where
  "Word32Shl x n = ucast (push_bit (unat n mod 32) (ucast x :: 32 word))"

definition Word32Or :: "'w::len word \<Rightarrow> 'w word \<Rightarrow> 'w word" where
  "Word32Or a b = ucast ((ucast a :: 32 word) OR (ucast b :: 32 word))"

definition Int32Mul :: "'w::len word \<Rightarrow> 'w word \<Rightarrow> 'w word" where
  "Int32Mul a b = ucast ((ucast a :: 32 word) * (ucast b :: 32 word))"

definition ChangeInt32ToInt64 :: "'w::len word \<Rightarrow> 'w word" where
  "ChangeInt32ToInt64 x = scast (ucast x :: 32 word)"

definition WordEqual :: "'w::len word \<Rightarrow> 'w word \<Rightarrow> 'w word" where
  "WordEqual a b = (if a = b then 1 else 0)"

definition WordNotEqual :: "'w::len word \<Rightarrow> 'w word \<Rightarrow> 'w word" where
  "WordNotEqual a b = (if a = b then 0 else 1)"

definition UintPtrGreaterThanOrEqual :: "'w::len word \<Rightarrow> 'w word \<Rightarrow> 'w word" where
  "UintPtrGreaterThanOrEqual a b = (if b \<le> a then 1 else 0)"

definition Branch :: "'w::len word \<Rightarrow> bool" where
  "Branch condition \<longleftrightarrow> condition \<noteq> 0"

text \<open>Modelled from the spec: reading the native stack pointer.\<close>

definition LoadStackPointer :: "'w::len state \<Rightarrow> 'w word" where
  "LoadStackPointer s = stack_pointer s"

section \<open>Interpreter state and register frame addressing\<close>

definition GetAccumulator :: "'w::len state \<Rightarrow> 'w word" where
  "GetAccumulator s = accumulator_var s"

definition SetAccumulator :: "'w::len state \<Rightarrow> 'w word \<Rightarrow> 'w state" where
  "SetAccumulator s v = s\<lparr>accumulator_var := v\<rparr>"

definition GetContext :: "'w::len state \<Rightarrow> 'w word" where
  "GetContext s = context_var s"

definition BytecodeOffset :: "'w::len state \<Rightarrow> 'w word" where
  "BytecodeOffset s = Parameter s kBytecodeOffsetParameter"

definition RegisterFileRawPointer :: "'w::len state \<Rightarrow> 'w word" where
  "RegisterFileRawPointer s = Parameter s kRegisterFileParameter"

definition BytecodeArrayTaggedPointer :: "'w::len state \<Rightarrow> 'w word" where
  "BytecodeArrayTaggedPointer s = Parameter s kBytecodeArrayParameter"

definition DispatchTableRawPointer :: "'w::len state \<Rightarrow> 'w word" where
  "DispatchTableRawPointer s = dispatch_table_var s"

definition RegisterFrameOffset :: "'w::len word \<Rightarrow> 'w word" where
  "RegisterFrameOffset index = WordShl index (kPointerSizeLog2 TYPE('w))"

definition RegisterLocation :: "'w::len state \<Rightarrow> 'w word \<Rightarrow> 'w word" where
  "RegisterLocation s reg_index =
     IntPtrAdd (RegisterFileRawPointer s) (RegisterFrameOffset reg_index)"

text \<open>\<^verbatim>\<open>LoadRegister(int offset)\<close> and \<^verbatim>\<open>StoreRegister(Node* value, int offset)\<close>.\<close>

definition LoadRegister :: "('w::len, 'ot) env \<Rightarrow> 'w state \<Rightarrow> int \<Rightarrow> 'w word" where
  "LoadRegister e s offset =
     Load e s AnyTagged (RegisterFileRawPointer s) (Int32Constant offset)"

definition StoreRegister :: "('w::len, 'ot) env \<Rightarrow> 'w state \<Rightarrow> 'w word \<Rightarrow> int \<Rightarrow> 'w state" where
  "StoreRegister e s v offset =
     StoreNoWriteBarrier e s (RegisterFileRawPointer s) (Int32Constant offset) v"

text \<open>\<^verbatim>\<open>LoadRegister(Register reg)\<close> and \<^verbatim>\<open>StoreRegister(Node* value, Register reg)\<close>; the
  register is given by its operand, and \<^verbatim>\<open>reg.ToOperand() << kPointerSizeLog2\<close> is C++
  \<^verbatim>\<open>int\<close> arithmetic.\<close>

definition LoadRegister_reg :: "('w::len, 'ot) env \<Rightarrow> 'w state \<Rightarrow> int \<Rightarrow> 'w word" where
  "LoadRegister_reg e s reg_ToOperand =
     LoadRegister e s (reg_ToOperand * 2 ^ kPointerSizeLog2 TYPE('w))"

definition StoreRegister_reg :: "('w::len, 'ot) env \<Rightarrow> 'w state \<Rightarrow> 'w word \<Rightarrow> int \<Rightarrow> 'w state" where
  "StoreRegister_reg e s v reg_ToOperand =
     StoreRegister e s v (reg_ToOperand * 2 ^ kPointerSizeLog2 TYPE('w))"

definition NextRegister :: "'w::len word \<Rightarrow> 'w word" where
  "NextRegister reg_index = IntPtrAdd reg_index (Int32Constant (- 1))"

definition SetContext :: "('w::len, 'ot) env \<Rightarrow> 'w state \<Rightarrow> 'w word \<Rightarrow> 'w state" where
  "SetContext e s v =
     (let s1 = StoreRegister_reg e s v (current_context_ToOperand e)
      in s1\<lparr>context_var := v\<rparr>)"

section \<open>The operand decoder\<close>

definition TargetSupportsUnalignedAccess :: "('w::len, 'ot) env \<Rightarrow> bool" where
  "TargetSupportsUnalignedAccess e =
     (case V8_TARGET_ARCH e of
        MIPS \<Rightarrow> False
      | MIPS64 \<Rightarrow> False
      | ARM \<Rightarrow> UNALIGNED_ACCESSES e
      | ARM64 \<Rightarrow> UNALIGNED_ACCESSES e
      | PPC \<Rightarrow> UNALIGNED_ACCESSES e
      | IA32 \<Rightarrow> True
      | X64 \<Rightarrow> True
      | X87 \<Rightarrow> True)"

text \<open>A decoder returns \<open>None\<close> where a \<^verbatim>\<open>DCHECK\<close> of a debug build fails or
  \<^verbatim>\<open>UNREACHABLE()\<close> is reached.\<close>

definition BytecodeOperand :: "('w::len, 'ot) env \<Rightarrow> 'w state \<Rightarrow> int \<Rightarrow> 'w word option" where
  "BytecodeOperand e s operand_index =
     (if DCHECK e (operand_index < NumberOfOperands e (bytecode_field s))
         \<and> DCHECK e (GetOperandSize e (bytecode_field s) operand_index = kByte)
      then Some (Load e s Uint8 (BytecodeArrayTaggedPointer s)
                  (IntPtrAdd (BytecodeOffset s)
                     (Int32Constant (GetOperandOffset e (bytecode_field s) operand_index))))
      else None)"

definition BytecodeOperandSignExtended :: "('w::len, 'ot) env \<Rightarrow> 'w state \<Rightarrow> int \<Rightarrow> 'w word option" where
  "BytecodeOperandSignExtended e s operand_index =
     (if DCHECK e (operand_index < NumberOfOperands e (bytecode_field s))
         \<and> DCHECK e (GetOperandSize e (bytecode_field s) operand_index = kByte)
      then
        (let load = Load e s Int8 (BytecodeArrayTaggedPointer s)
                      (IntPtrAdd (BytecodeOffset s)
                         (Int32Constant (GetOperandOffset e (bytecode_field s) operand_index)))
         in Some (if kPointerSize TYPE('w) = 8 then ChangeInt32ToInt64 load else load))
      else None)"

definition BytecodeOperandShort :: "('w::len, 'ot) env \<Rightarrow> 'w state \<Rightarrow> int \<Rightarrow> 'w word option" where
  "BytecodeOperandShort e s operand_index =
     (if DCHECK e (operand_index < NumberOfOperands e (bytecode_field s))
         \<and> DCHECK e (GetOperandSize e (bytecode_field s) operand_index = kShort)
      then
        (if TargetSupportsUnalignedAccess e then
           Some (Load e s Uint16 (BytecodeArrayTaggedPointer s)
                  (IntPtrAdd (BytecodeOffset s)
                     (Int32Constant (GetOperandOffset e (bytecode_field s) operand_index))))
         else
           (let offset = GetOperandOffset e (bytecode_field s) operand_index;
                first_byte = Load e s Uint8 (BytecodeArrayTaggedPointer s)
                               (IntPtrAdd (BytecodeOffset s) (Int32Constant offset));
                second_byte = Load e s Uint8 (BytecodeArrayTaggedPointer s)
                                (IntPtrAdd (BytecodeOffset s) (Int32Constant (offset + 1)))
            in if V8_TARGET_LITTLE_ENDIAN e
               then Some (WordOr (WordShl second_byte kBitsPerByte) first_byte)
               else Some (WordOr (WordShl first_byte kBitsPerByte) second_byte)))
      else None)"

definition BytecodeOperandShortSignExtended :: "('w::len, 'ot) env \<Rightarrow> 'w state \<Rightarrow> int \<Rightarrow> 'w word option" where
  "BytecodeOperandShortSignExtended e s operand_index =
     (if DCHECK e (operand_index < NumberOfOperands e (bytecode_field s))
         \<and> DCHECK e (GetOperandSize e (bytecode_field s) operand_index = kShort)
      then
        (let operand_offset = GetOperandOffset e (bytecode_field s) operand_index;
             load =
               (if TargetSupportsUnalignedAccess e then
                  Load e s Int16 (BytecodeArrayTaggedPointer s)
                    (IntPtrAdd (BytecodeOffset s) (Int32Constant operand_offset))
                else
                  (let hi_byte_offset =
                         (if V8_TARGET_LITTLE_ENDIAN e
                          then Int32Constant (operand_offset + 1)
                          else Int32Constant operand_offset);
                       lo_byte_offset =
                         (if V8_TARGET_LITTLE_ENDIAN e
                          then Int32Constant operand_offset
                          else Int32Constant (operand_offset + 1));
                       hi_byte = Load e s Int8 (BytecodeArrayTaggedPointer s)
                                   (IntPtrAdd (BytecodeOffset s) hi_byte_offset);
                       lo_byte = Load e s Uint8 (BytecodeArrayTaggedPointer s)
                                   (IntPtrAdd (BytecodeOffset s) lo_byte_offset);
                       hi_byte' = Word32Shl hi_byte (Int32Constant (int kBitsPerByte))
                   in Word32Or hi_byte' lo_byte))
         in Some (if kPointerSize TYPE('w) = 8 then ChangeInt32ToInt64 load else load))
      else None)"

definition BytecodeOperandReg :: "('w::len, 'ot) env \<Rightarrow> 'w state \<Rightarrow> int \<Rightarrow> 'w word option" where
  "BytecodeOperandReg e s operand_index =
     (let operand_type = GetOperandType e (bytecode_field s) operand_index in
      if IsRegisterOperandType e operand_type then
        (let operand_size = SizeOfOperand e operand_type in
         if operand_size = kByte then BytecodeOperandSignExtended e s operand_index
         else if operand_size = kShort then BytecodeOperandShortSignExtended e s operand_index
         else None)
      else None)"

section \<open>The call and runtime invocation protocol\<close>

text \<open>The call itself: the callee runs on the memory and the stack pointer of the caller,
  and the call is appended to the log.\<close>

definition raw_call :: "('w::len, 'ot) env \<Rightarrow> 'w state \<Rightarrow> callee \<Rightarrow> 'w word list \<Rightarrow> 'w word \<times> 'w state" where
  "raw_call e s code_target args =
     (case run_callee e code_target args (memory s) (stack_pointer s) of
        (return_value, m, sp) \<Rightarrow>
          (return_value,
           s\<lparr>memory := m, stack_pointer := sp, calls := calls s @ [(code_target, args)]\<rparr>))"

definition CallPrologue :: "('w::len, 'ot) env \<Rightarrow> 'w state \<Rightarrow> ('w word exit \<times> 'w state) + 'w state" where
  "CallPrologue e s =
     (let s1 = StoreRegister e s (SmiTag e (BytecodeOffset s))
                 (kBytecodeOffsetFromRegisterPointer e);
          s2 = StoreRegister e s1 (DispatchTableRawPointer s1)
                 (kDispatchTableFromRegisterPointer e)
      in if FLAG_debug_code e \<and> \<not> disable_stack_check_across_call_field s2 then
           (if DCHECK e (stack_pointer_before_call_field s2 = None)
            then Inr (s2\<lparr>stack_pointer_before_call_field := Some (LoadStackPointer s2)\<rparr>)
            else Inl (Fatal, s2))
         else Inr s2)"

text \<open>
  Modelled from the spec: \<^verbatim>\<open>CodeStubAssembler::CallRuntime\<close>, the last of the four
  functions below, which is not in the file. Section 4.4 of the spec: every call out of the
  interpreter to a runtime service runs the prologue immediately before the call and the
  epilogue immediately after it returns.

  The other three are the file's: \<^verbatim>\<open>CallEpilogue\<close>, \<^verbatim>\<open>AbortIfWordNotEqual\<close> and
  \<^verbatim>\<open>Abort\<close> call each other through \<^verbatim>\<open>CallRuntime\<close>. The recursion ends because
  \<^verbatim>\<open>Abort\<close> disables the stack check before its call. A
  \<^verbatim>\<open>stack_pointer_before_call_\<close> that is still \<^verbatim>\<open>nullptr\<close> in the epilogue cannot be
  compared: the assembler fails.
\<close>

function CallEpilogue :: "('w::len, 'ot) env \<Rightarrow> 'w state \<Rightarrow> ('w word exit \<times> 'w state) + 'w state"
  and AbortIfWordNotEqual :: "('w::len, 'ot) env \<Rightarrow> 'w state \<Rightarrow> 'w word \<Rightarrow> 'w word \<Rightarrow> int
                               \<Rightarrow> ('w word exit \<times> 'w state) + 'w state"
  and Abort :: "('w::len, 'ot) env \<Rightarrow> 'w state \<Rightarrow> int \<Rightarrow> 'w word exit \<times> 'w state"
  and CallRuntime :: "('w::len, 'ot) env \<Rightarrow> 'w state \<Rightarrow> FunctionId \<Rightarrow> 'w word \<Rightarrow> 'w word list
                       \<Rightarrow> ('w word exit \<times> 'w state) + ('w word \<times> 'w state)"
where
  "CallEpilogue e s =
     (case (if FLAG_debug_code e \<and> \<not> disable_stack_check_across_call_field s then
              (case stack_pointer_before_call_field s of
                 None \<Rightarrow> Inl (Fatal, s)
               | Some stack_pointer_before_call \<Rightarrow>
                   AbortIfWordNotEqual e (s\<lparr>stack_pointer_before_call_field := None\<rparr>)
                     stack_pointer_before_call (LoadStackPointer s)
                     (kUnexpectedStackPointer e))
            else Inr s) of
        Inl x \<Rightarrow> Inl x
      | Inr s1 \<Rightarrow>
          Inr (s1\<lparr>dispatch_table_var :=
                     LoadRegister e s1 (kDispatchTableFromRegisterPointer e)\<rparr>))"
| "AbortIfWordNotEqual e s lhs rhs bailout_reason =
     (if Branch (WordEqual lhs rhs) then Inr s else Inl (Abort e s bailout_reason))"
| "Abort e s bailout_reason =
     (case CallRuntime e (s\<lparr>disable_stack_check_across_call_field := True\<rparr>) kAbort
             (GetContext s) [SmiTag e (Int32Constant bailout_reason)] of
        Inl x \<Rightarrow> x
      | Inr (ret_value, s1) \<Rightarrow>
          (Return ret_value, s1\<lparr>disable_stack_check_across_call_field := False\<rparr>))"
| "CallRuntime e s function_id context_arg args =
     (case CallPrologue e s of
        Inl x \<Rightarrow> Inl x
      | Inr s1 \<Rightarrow>
          (case raw_call e s1 (RuntimeFunction function_id) (context_arg # args) of
             (return_value, s2) \<Rightarrow>
               (case CallEpilogue e s2 of
                  Inl x \<Rightarrow> Inl x
                | Inr s3 \<Rightarrow> Inr (return_value, s3))))"
  by pat_completeness auto


termination
proof (relation "measure (\<lambda>x. case x of
          Inl (Inl (e, s)) \<Rightarrow>
            if FLAG_debug_code e \<and> \<not> disable_stack_check_across_call_field s then 4 else 0
        | Inl (Inr (e, s, lhs, rhs, bailout_reason)) \<Rightarrow> 3
        | Inr (Inl (e, s, bailout_reason)) \<Rightarrow> 2
        | Inr (Inr (e, s, function_id, context_arg, args)) \<Rightarrow>
            if FLAG_debug_code e \<and> \<not> disable_stack_check_across_call_field s then 5 else 1)",
       goal_cases)
  case 1
  show ?case by simp
next
  case (2 e s x2)
  then show ?case by simp
next
  case (3 e s lhs rhs bailout_reason)
  show ?case by simp
next
  case (4 e s bailout_reason)
  show ?case by simp
next
  case (5 e s function_id context_arg args b x y)
  have "disable_stack_check_across_call_field b = disable_stack_check_across_call_field s"
    using 5(1)
    by (auto simp: CallPrologue_def StoreRegister_def StoreNoWriteBarrier_def Let_def
          split: if_splits)
  moreover have "disable_stack_check_across_call_field y = disable_stack_check_across_call_field b"
    using 5(2) by (auto simp: raw_call_def split: prod.splits)
  ultimately show ?case by simp
qed

declare CallEpilogue.simps [simp del] AbortIfWordNotEqual.simps [simp del]
  Abort.simps [simp del] CallRuntime.simps [simp del]

text \<open>
  Modelled from the spec: \<^verbatim>\<open>CodeStubAssembler::CallStub\<close>, which is not in the file.
  Section 4.4 of the spec: each of \<^verbatim>\<open>CallJS\<close>, \<^verbatim>\<open>CallConstruct\<close> and \<^verbatim>\<open>CallRuntimeN\<close>
  wraps its call in the prologue/epilogue pair. The context is the first argument of the
  callee.
\<close>

definition CallStub :: "('w::len, 'ot) env \<Rightarrow> 'w state \<Rightarrow> callee \<Rightarrow> 'w word \<Rightarrow> 'w word list
                         \<Rightarrow> ('w word exit \<times> 'w state) + ('w word \<times> 'w state)" where
  "CallStub e s code_target context_arg args =
     (case CallPrologue e s of
        Inl x \<Rightarrow> Inl x
      | Inr s1 \<Rightarrow>
          (case raw_call e s1 code_target (context_arg # args) of
             (return_value, s2) \<Rightarrow>
               (case CallEpilogue e s2 of
                  Inl x \<Rightarrow> Inl x
                | Inr s3 \<Rightarrow> Inr (return_value, s3))))"

definition CallJS :: "('w::len, 'ot) env \<Rightarrow> 'w state \<Rightarrow> 'w word \<Rightarrow> 'w word \<Rightarrow> 'w word \<Rightarrow> 'w word
                       \<Rightarrow> ('w word exit \<times> 'w state) + ('w word \<times> 'w state)" where
  "CallJS e s function_arg context_arg first_arg arg_count =
     CallStub e s InterpreterPushArgsAndCall context_arg [arg_count, first_arg, function_arg]"

definition CallConstruct :: "('w::len, 'ot) env \<Rightarrow> 'w state \<Rightarrow> 'w word \<Rightarrow> 'w word \<Rightarrow> 'w word \<Rightarrow> 'w word
                              \<Rightarrow> 'w word \<Rightarrow> ('w word exit \<times> 'w state) + ('w word \<times> 'w state)" where
  "CallConstruct e s constructor context_arg new_target first_arg arg_count =
     CallStub e s InterpreterPushArgsAndConstruct context_arg
       [arg_count, new_target, constructor, first_arg]"

definition CallRuntimeN :: "('w::len, 'ot) env \<Rightarrow> 'w state \<Rightarrow> 'w word \<Rightarrow> 'w word \<Rightarrow> 'w word \<Rightarrow> 'w word
                             \<Rightarrow> int \<Rightarrow> ('w word exit \<times> 'w state) + ('w word \<times> 'w state)" where
  "CallRuntimeN e s function_id context_arg first_arg arg_count result_size =
     (let function_table = runtime_function_table_address e;
          function_offset = Int32Mul function_id (Int32Constant (sizeof_Runtime_Function e));
          function_addr = IntPtrAdd function_table function_offset;
          function_entry = Load e s Pointer function_addr
                             (Int32Constant (offsetof_Runtime_Function_entry e))
      in CallStub e s (InterpreterCEntry result_size) context_arg
           [arg_count, first_arg, function_entry])"

section \<open>Dispatch and control flow\<close>

definition TraceBytecode :: "('w::len, 'ot) env \<Rightarrow> 'w state \<Rightarrow> FunctionId
                              \<Rightarrow> ('w word exit \<times> 'w state) + ('w word \<times> 'w state)" where
  "TraceBytecode e s function_id =
     CallRuntime e s function_id (GetContext s)
       [BytecodeArrayTaggedPointer s, SmiTag e (BytecodeOffset s), GetAccumulator s]"

text \<open>
  The constructor: the state at the entry of the handler of \<open>bytecode\<close>, given the six
  parameters and the machine. The three variables are bound to their parameters, no call
  is in progress, and with tracing the entry is traced.
\<close>

definition InterpreterAssembler :: "('w::len, 'ot) env \<Rightarrow> 8 word
    \<Rightarrow> (InterpreterDispatchDescriptor \<Rightarrow> 'w word) \<Rightarrow> 'w memory \<Rightarrow> 'w word
    \<Rightarrow> (callee \<times> 'w word list) list \<Rightarrow> ('w word exit \<times> 'w state) + 'w state" where
  "InterpreterAssembler e bytecode parameters m sp log =
     (let s = \<lparr>bytecode_field = bytecode,
                accumulator_var = parameters kAccumulatorParameter,
                context_var = parameters kContextParameter,
                dispatch_table_var = parameters kDispatchTableParameter,
                disable_stack_check_across_call_field = False,
                stack_pointer_before_call_field = None,
                Parameter = parameters,
                memory = m,
                stack_pointer = sp,
                calls = log\<rparr>
      in if FLAG_trace_ignition e then
           (case TraceBytecode e s kInterpreterTraceBytecodeEntry of
              Inl x \<Rightarrow> Inl x
            | Inr (_, s1) \<Rightarrow> Inr s1)
         else Inr s)"

text \<open>\<^verbatim>\<open>Advance(int delta)\<close> and \<^verbatim>\<open>Advance(Node* delta)\<close>.\<close>

definition Advance_int :: "'w::len state \<Rightarrow> int \<Rightarrow> 'w word" where
  "Advance_int s delta = IntPtrAdd (BytecodeOffset s) (Int32Constant delta)"

definition Advance :: "'w::len state \<Rightarrow> 'w word \<Rightarrow> 'w word" where
  "Advance s delta = IntPtrAdd (BytecodeOffset s) delta"

definition DispatchTo :: "('w::len, 'ot) env \<Rightarrow> 'w state \<Rightarrow> 'w word \<Rightarrow> 'w word exit \<times> 'w state" where
  "DispatchTo e s new_bytecode_offset =
     (case (if FLAG_trace_ignition e then TraceBytecode e s kInterpreterTraceBytecodeExit
            else Inr (0, s)) of
        Inl x \<Rightarrow> x
      | Inr (_, s1) \<Rightarrow>
          (let target_bytecode =
                 Load e s1 Uint8 (BytecodeArrayTaggedPointer s1) new_bytecode_offset;
               target_code_object =
                 Load e s1 Pointer (DispatchTableRawPointer s1)
                   (Word32Shl target_bytecode (Int32Constant (int (kPointerSizeLog2 TYPE('w)))));
               args = [GetAccumulator s1, RegisterFileRawPointer s1,
                       new_bytecode_offset, BytecodeArrayTaggedPointer s1,
                       DispatchTableRawPointer s1, GetContext s1]
           in (TailCall target_code_object args, s1)))"

definition Dispatch :: "('w::len, 'ot) env \<Rightarrow> 'w state \<Rightarrow> 'w word exit \<times> 'w state" where
  "Dispatch e s = DispatchTo e s (Advance_int s (Size e (bytecode_field s)))"

definition Jump :: "('w::len, 'ot) env \<Rightarrow> 'w state \<Rightarrow> 'w word \<Rightarrow> 'w word exit \<times> 'w state" where
  "Jump e s delta = DispatchTo e s (Advance s delta)"

definition JumpConditional :: "('w::len, 'ot) env \<Rightarrow> 'w state \<Rightarrow> 'w word \<Rightarrow> 'w word
                                \<Rightarrow> 'w word exit \<times> 'w state" where
  "JumpConditional e s condition delta =
     (if Branch condition then DispatchTo e s (Advance s delta) else Dispatch e s)"

definition JumpIfWordEqual :: "('w::len, 'ot) env \<Rightarrow> 'w state \<Rightarrow> 'w word \<Rightarrow> 'w word \<Rightarrow> 'w word
                                \<Rightarrow> 'w word exit \<times> 'w state" where
  "JumpIfWordEqual e s lhs rhs delta = JumpConditional e s (WordEqual lhs rhs) delta"

definition JumpIfWordNotEqual :: "('w::len, 'ot) env \<Rightarrow> 'w state \<Rightarrow> 'w word \<Rightarrow> 'w word \<Rightarrow> 'w word
                                   \<Rightarrow> 'w word exit \<times> 'w state" where
  "JumpIfWordNotEqual e s lhs rhs delta = JumpConditional e s (WordNotEqual lhs rhs) delta"


section \<open>The stack guard\<close>

text \<open>
  The call of the stack guard is generated under the label \<^verbatim>\<open>stack_guard\<close> whatever the
  comparison gives at run time, so the \<^verbatim>\<open>DCHECK\<close> of its prologue (no stack pointer is
  recorded yet, in a build that checks the stack pointer across calls) is evaluated on
  both paths: where it fails, \<^verbatim>\<open>StackCheck\<close> is fatal before the comparison.
\<close>

definition StackCheck :: "('w::len, 'ot) env \<Rightarrow> 'w state \<Rightarrow> ('w word exit \<times> 'w state) + 'w state" where
  "StackCheck e s =
     (let sp = LoadStackPointer s;
          stack_limit = Load e s Pointer (address_of_stack_limit e) 0;
          condition = UintPtrGreaterThanOrEqual sp stack_limit
      in if FLAG_debug_code e \<and> \<not> disable_stack_check_across_call_field s
            \<and> \<not> DCHECK e (stack_pointer_before_call_field s = None)
         then Inl (Fatal, s)
         else if Branch condition then Inr s
         else (case CallRuntime e s kStackGuard (GetContext s) [] of
                 Inl x \<Rightarrow> Inl x
               | Inr (_, s1) \<Rightarrow> Inr s1))"

section \<open>A concrete target, catalog and frame\<close>

text \<open>
  A 64-bit little-endian x64 target in a debug build without tracing. The catalog has two
  bytecodes of size 3: bytecode 7 with an unsigned byte index and a byte-sized register
  operand, and bytecode 9 with one 2-byte register operand. The bytecode array (tagged
  pointer \<open>0x1000\<close>) holds bytecode 7 with operands \<open>5\<close> and \<open>-3\<close> at offset 100 and
  bytecode 9 with operand \<open>-2\<close> at offset 103. The register file is at \<open>0x2000\<close>, the
  dispatch table at \<open>0x3000\<close> with the handler of bytecode 9 at \<open>0x5000\<close>, and the stack
  limit \<open>0x7000\<close> is stored at \<open>0x9000\<close>. The call stub stands for a call during which a
  debugger swaps the dispatch table: it writes \<open>0x4000\<close> into the frame slot of the
  dispatch table. The stack guard returns with the stack pointer moved by 8 when its
  context argument is \<open>0xBAD\<close>, and unchanged otherwise.
\<close>

datatype example_OperandType = kIdx8 | kReg8 | kReg16

definition example_callee :: "callee \<Rightarrow> 64 word list \<Rightarrow> 64 memory \<Rightarrow> 64 word
                               \<Rightarrow> 64 word \<times> 64 memory \<times> 64 word" where
  "example_callee code_target args m sp =
     (case code_target of
        InterpreterPushArgsAndCall \<Rightarrow> (1, store_int True m 0x2010 8 (0x4000 :: 64 word), sp)
      | InterpreterPushArgsAndConstruct \<Rightarrow> (2, m, sp)
      | InterpreterCEntry result_size \<Rightarrow> (3, m, sp)
      | RuntimeFunction function_id \<Rightarrow>
          (if function_id = kStackGuard \<and> args = [0xBAD] then (0, m, sp + 8) else (0, m, sp)))"

definition example_env :: "(64, example_OperandType) env" where
  "example_env =
     \<lparr>DEBUG = True,
      FLAG_debug_code = True,
      FLAG_trace_ignition = False,
      V8_TARGET_LITTLE_ENDIAN = True,
      V8_TARGET_ARCH = X64,
      UNALIGNED_ACCESSES = True,
      NumberOfOperands = (\<lambda>b. if b = 7 then 2 else 1),
      GetOperandSize = (\<lambda>b i. if b = 7 then kByte else kShort),
      GetOperandType = (\<lambda>b i. if b = 7 then (if i = 0 then kIdx8 else kReg8) else kReg16),
      GetOperandOffset = (\<lambda>b i. i + 1),
      IsRegisterOperandType = (\<lambda>t. t \<noteq> kIdx8),
      SizeOfOperand = (\<lambda>t. if t = kReg16 then kShort else kByte),
      Size = (\<lambda>b. 3),
      kBytecodeOffsetFromRegisterPointer = 8,
      kDispatchTableFromRegisterPointer = 16,
      current_context_ToOperand = 3,
      kUnexpectedStackPointer = 1,
      SmiTag = push_bit 32,
      address_of_stack_limit = 0x9000,
      runtime_function_table_address = 0xA000,
      sizeof_Runtime_Function = 32,
      offsetof_Runtime_Function_entry = 16,
      InterpreterExitTrampoline = 0xE000,
      run_callee = example_callee\<rparr>"

definition example_Parameter :: "InterpreterDispatchDescriptor \<Rightarrow> 64 word" where
  "example_Parameter p =
     (case p of
        kAccumulatorParameter \<Rightarrow> 0xAA
      | kRegisterFileParameter \<Rightarrow> 0x2000
      | kBytecodeOffsetParameter \<Rightarrow> 100
      | kBytecodeArrayParameter \<Rightarrow> 0x1000
      | kDispatchTableParameter \<Rightarrow> 0x3000
      | kContextParameter \<Rightarrow> 0xCC)"

definition example_memory :: "64 memory" where
  "example_memory =
     (\<lambda>a. 0)(0x1064 := 7, 0x1065 := 5, 0x1066 := 0xFD,
             0x1067 := 9, 0x1068 := 0xFE, 0x1069 := 0xFF,
             0x3049 := 0x50, 0x9001 := 0x70)"

definition example_state :: "64 state" where
  "example_state =
     \<lparr>bytecode_field = 7,
      accumulator_var = 0xAA,
      context_var = 0xCC,
      dispatch_table_var = 0x3000,
      disable_stack_check_across_call_field = False,
      stack_pointer_before_call_field = None,
      Parameter = example_Parameter,
      memory = example_memory,
      stack_pointer = 0x8000,
      calls = []\<rparr>"

text \<open>The same frame at the second instruction (bytecode 9, offset 103).\<close>

definition example_state_short :: "64 state" where
  "example_state_short =
     example_state\<lparr>bytecode_field := 9,
                   Parameter := example_Parameter(kBytecodeOffsetParameter := 103)\<rparr>"

section \<open>Facts about the backend operations\<close>

lemma load_int_1: "(load_int le m a (Suc 0) :: 8 word) = m a"
  by (simp add: load_int_def Let_def)

lemma load_int_2:
  "(load_int le m a 2 :: 16 word) =
     (if le then ucast (m a) OR push_bit 8 (ucast (m (a + 1)))
      else ucast (m (a + 1)) OR push_bit 8 (ucast (m a)))"
  by (simp add: load_int_def numeral_2_eq_2 Let_def)

lemma bit8D: "bit (b::8 word) n \<Longrightarrow> n < 8"
  using bit_imp_le_length[of b n] by simp

lemma comb_u16:
  "(ucast (ucast (b0::8 word) OR push_bit 8 (ucast (b1::8 word)) :: 16 word) :: 'w::len word)
     = push_bit 8 (ucast b1) OR ucast b0"
  by (rule bit_word_eqI) (auto simp: bit_simps dest: bit8D)

lemma comb_s16:
  assumes "32 \<le> LENGTH('w::len)"
  shows "(ucast (scast (ucast (b0::8 word) OR push_bit 8 (ucast (b1::8 word)) :: 16 word) :: 32 word) :: 'w word)
     = ucast ((ucast (ucast (push_bit 8 (ucast (ucast (scast b1 :: 32 word) :: 'w word) :: 32 word)) :: 'w word) :: 32 word)
          OR (ucast (ucast b0 :: 'w word) :: 32 word))"
proof (rule bit_word_eqI)
  fix n assume n: "n < LENGTH('w)"
  have m1: "min 15 n = (if n < 15 then n else 15)" by simp
  have m2: "min 7 (n - 8) = (if n < 15 then n - 8 else 7)" by auto
  show "bit (ucast (scast (ucast b0 OR push_bit 8 (ucast b1) :: 16 word) :: 32 word) :: 'w word) n
    = bit (ucast ((ucast (ucast (push_bit 8 (ucast (ucast (scast b1 :: 32 word) :: 'w word) :: 32 word)) :: 'w word) :: 32 word)
          OR (ucast (ucast b0 :: 'w word) :: 32 word)) :: 'w word) n"
    using assms n by (auto simp: bit_simps m1 m2 dest: bit8D)
qed

lemma Int32Constant_in_range:
  assumes "- (2 ^ 31) \<le> c" "c < 2 ^ 31"
  shows "(Int32Constant c :: 'w::len word) = word_of_int c"
proof -
  have "signed_take_bit 31 c = c"
    using assms by (simp add: signed_take_bit_int_eq_self)
  then show ?thesis
    by (simp add: Int32Constant_def signed_of_int)
qed

lemma Int32Constant_succ:
  assumes "- (2 ^ 31) \<le> c" "c + 1 < 2 ^ 31"
  shows "(Int32Constant (c + 1) :: 'w::len word) = Int32Constant c + 1"
  using assms by (simp add: Int32Constant_in_range)

lemma Int32Constant_8: "(Int32Constant 8 :: 'w::len word) = 8"
  by (simp add: Int32Constant_in_range)

lemma Int32Constant_m1: "(Int32Constant (- 1) :: 'w::len word) = - 1"
  by (simp add: Int32Constant_in_range)

lemma unat_8:
  assumes "32 \<le> LENGTH('w::len)"
  shows "unat (8 :: 'w word) mod 32 = 8"
proof -
  have "(2::nat) ^ 32 \<le> 2 ^ LENGTH('w)"
    using assms by (rule power_increasing) simp
  then have "(8::nat) < 2 ^ LENGTH('w)" by simp
  then have "unat (of_nat 8 :: 'w word) = 8"
    by (simp only: unat_of_nat mod_less)
  then show ?thesis by simp
qed

lemma Word32Shl_kBitsPerByte:
  assumes "32 \<le> LENGTH('w::len)"
  shows "Word32Shl (x :: 'w word) (Int32Constant (int kBitsPerByte))
           = ucast (push_bit 8 (ucast x :: 32 word))"
proof -
  have "(Int32Constant (int kBitsPerByte) :: 'w word) = 8"
    by (simp add: kBitsPerByte_def Int32Constant_8)
  then show ?thesis
    unfolding Word32Shl_def by (simp only: unat_8[OF assms])
qed

lemma sext8:
  assumes "LENGTH('w::len) = 32 \<or> LENGTH('w) = 64"
  shows "(if kPointerSize TYPE('w) = 8
          then ChangeInt32ToInt64 (ucast (scast (b::8 word) :: 32 word) :: 'w word)
          else ucast (scast b :: 32 word)) = (scast b :: 'w word)"
  using assms
  by (auto simp: kPointerSize_def ChangeInt32ToInt64_def bit_simps min_def intro!: bit_word_eqI
        split: if_splits)

section \<open>Properties of the operand decoder\<close>

lemma short_value_unaligned:
  fixes e :: "('w::len, 'ot) env"
  assumes "TargetSupportsUnalignedAccess e"
    and "operand_index < NumberOfOperands e (bytecode_field s)"
    and "GetOperandSize e (bytecode_field s) operand_index = kShort"
  shows "BytecodeOperandShort e s operand_index =
    Some (ucast (load_int (V8_TARGET_LITTLE_ENDIAN e) (memory s)
      (BytecodeArrayTaggedPointer s + (BytecodeOffset s
          + Int32Constant (GetOperandOffset e (bytecode_field s) operand_index))) 2 :: 16 word))"
  using assms by (simp add: BytecodeOperandShort_def DCHECK_def Load_def IntPtrAdd_def Let_def)

lemma short_value_bytewise:
  fixes e :: "('w::len, 'ot) env"
  assumes "\<not> TargetSupportsUnalignedAccess e"
    and "operand_index < NumberOfOperands e (bytecode_field s)"
    and "GetOperandSize e (bytecode_field s) operand_index = kShort"
    and "- (2 ^ 31) \<le> GetOperandOffset e (bytecode_field s) operand_index"
    and "GetOperandOffset e (bytecode_field s) operand_index + 1 < 2 ^ 31"
  shows "BytecodeOperandShort e s operand_index =
    Some (ucast (load_int (V8_TARGET_LITTLE_ENDIAN e) (memory s)
      (BytecodeArrayTaggedPointer s + (BytecodeOffset s
          + Int32Constant (GetOperandOffset e (bytecode_field s) operand_index))) 2 :: 16 word))"
  using assms
  by (simp add: BytecodeOperandShort_def DCHECK_def Load_def IntPtrAdd_def Let_def
        Int32Constant_succ load_int_1 load_int_2 WordOr_def WordShl_def kBitsPerByte_def
        comb_u16 add.assoc)

lemma short_sx_value_unaligned:
  fixes e :: "('w::len, 'ot) env"
  assumes "TargetSupportsUnalignedAccess e"
    and "operand_index < NumberOfOperands e (bytecode_field s)"
    and "GetOperandSize e (bytecode_field s) operand_index = kShort"
  shows "BytecodeOperandShortSignExtended e s operand_index =
    Some (let load = ucast (scast (load_int (V8_TARGET_LITTLE_ENDIAN e) (memory s)
      (BytecodeArrayTaggedPointer s + (BytecodeOffset s
          + Int32Constant (GetOperandOffset e (bytecode_field s) operand_index))) 2 :: 16 word) :: 32 word)
       in if kPointerSize TYPE('w) = 8 then ChangeInt32ToInt64 load else load)"
  using assms
  by (simp add: BytecodeOperandShortSignExtended_def DCHECK_def Load_def IntPtrAdd_def Let_def)

lemma short_sx_value_bytewise:
  fixes e :: "('w::len, 'ot) env"
  assumes "\<not> TargetSupportsUnalignedAccess e"
    and "32 \<le> LENGTH('w)"
    and "operand_index < NumberOfOperands e (bytecode_field s)"
    and "GetOperandSize e (bytecode_field s) operand_index = kShort"
    and "- (2 ^ 31) \<le> GetOperandOffset e (bytecode_field s) operand_index"
    and "GetOperandOffset e (bytecode_field s) operand_index + 1 < 2 ^ 31"
  shows "BytecodeOperandShortSignExtended e s operand_index =
    Some (let load = ucast (scast (load_int (V8_TARGET_LITTLE_ENDIAN e) (memory s)
      (BytecodeArrayTaggedPointer s + (BytecodeOffset s
          + Int32Constant (GetOperandOffset e (bytecode_field s) operand_index))) 2 :: 16 word) :: 32 word)
       in if kPointerSize TYPE('w) = 8 then ChangeInt32ToInt64 load else load)"
  using assms
  by (simp add: BytecodeOperandShortSignExtended_def DCHECK_def Load_def IntPtrAdd_def Let_def
        Int32Constant_succ load_int_1 load_int_2 Word32Or_def Word32Shl_kBitsPerByte
        comb_s16 add.assoc)

text \<open>
  C1. On a target of pointer width 32 or 64, for an operand that the catalog declares
  2 bytes wide, at an operand offset that C++ \<^verbatim>\<open>int\<close> arithmetic can increment, and for
  every content of the memory: a target without unaligned access, which combines two
  separately loaded bytes, decodes the same value as a target of the same byte order that
  loads 16 bits at once, both with \<^verbatim>\<open>BytecodeOperandShort\<close> and with
  \<^verbatim>\<open>BytecodeOperandShortSignExtended\<close>.
\<close>

theorem C1_bytewise_equals_direct:
  fixes e :: "('w::len, 'ot) env"
  assumes "LENGTH('w) = 32 \<or> LENGTH('w) = 64"
    and "TargetSupportsUnalignedAccess e"
    and "\<not> TargetSupportsUnalignedAccess (e\<lparr>V8_TARGET_ARCH := a, UNALIGNED_ACCESSES := u\<rparr>)"
    and "operand_index < NumberOfOperands e (bytecode_field s)"
    and "GetOperandSize e (bytecode_field s) operand_index = kShort"
    and "- (2 ^ 31) \<le> GetOperandOffset e (bytecode_field s) operand_index"
    and "GetOperandOffset e (bytecode_field s) operand_index + 1 < 2 ^ 31"
  shows "(\<exists>v. BytecodeOperandShort (e\<lparr>V8_TARGET_ARCH := a, UNALIGNED_ACCESSES := u\<rparr>) s operand_index
                = Some v
             \<and> BytecodeOperandShort e s operand_index = Some v)
       \<and> (\<exists>v. BytecodeOperandShortSignExtended
                  (e\<lparr>V8_TARGET_ARCH := a, UNALIGNED_ACCESSES := u\<rparr>) s operand_index = Some v
             \<and> BytecodeOperandShortSignExtended e s operand_index = Some v)"
proof -
  let ?e' = "e\<lparr>V8_TARGET_ARCH := a, UNALIGNED_ACCESSES := u\<rparr>"
  have w: "32 \<le> LENGTH('w)" using assms(1) by auto
  have u: "BytecodeOperandShort ?e' s operand_index = BytecodeOperandShort e s operand_index"
    using short_value_bytewise[of ?e' operand_index s]
      short_value_unaligned[of e operand_index s] assms
    by simp
  have sx: "BytecodeOperandShortSignExtended ?e' s operand_index
              = BytecodeOperandShortSignExtended e s operand_index"
    using short_sx_value_bytewise[of ?e' operand_index s]
      short_sx_value_unaligned[of e operand_index s] assms w
    by simp
  show ?thesis
    using u sx short_value_unaligned[of e operand_index s]
      short_sx_value_unaligned[of e operand_index s] assms
    by simp
qed

text \<open>
  C2. On a target of pointer width 32 or 64, for an operand that the catalog declares one
  byte wide, \<^verbatim>\<open>BytecodeOperandSignExtended\<close> returns a word whose signed value is the
  signed value of the operand byte. At the concrete frame the bytes \<open>0xFD\<close>, \<open>0xFF\<close> and
  \<open>0x7F\<close> decode to \<open>-3\<close>, \<open>-1\<close> and \<open>127\<close>.
\<close>

theorem C2_sign_extended_byte:
  fixes e :: "('w::len, 'ot) env"
  assumes "LENGTH('w) = 32 \<or> LENGTH('w) = 64"
    and "operand_index < NumberOfOperands e (bytecode_field s)"
    and "GetOperandSize e (bytecode_field s) operand_index = kByte"
  shows "\<exists>v. BytecodeOperandSignExtended e s operand_index = Some v
           \<and> sint v = sint (memory s (BytecodeArrayTaggedPointer s
                  + (BytecodeOffset s
                     + Int32Constant (GetOperandOffset e (bytecode_field s) operand_index))))"
proof -
  let ?b = "memory s (BytecodeArrayTaggedPointer s
                  + (BytecodeOffset s
                     + Int32Constant (GetOperandOffset e (bytecode_field s) operand_index)))"
  have "BytecodeOperandSignExtended e s operand_index = Some (scast ?b)"
    using assms(2,3) sext8[OF assms(1), of ?b]
    by (simp add: BytecodeOperandSignExtended_def DCHECK_def Load_def load_int_1 IntPtrAdd_def
          Let_def)
  moreover have "sint (scast ?b :: 'w word) = sint ?b"
    using assms(1) by (intro sint_up_scast) (auto simp: is_up)
  ultimately show ?thesis by simp
qed

text \<open>
  C7. For an operand whose type the catalog classifies as a register, \<^verbatim>\<open>BytecodeOperandReg\<close>
  is \<^verbatim>\<open>BytecodeOperandSignExtended\<close> when the type is one byte wide and
  \<^verbatim>\<open>BytecodeOperandShortSignExtended\<close> when it is two bytes wide. At the concrete frame
  it decodes the register operands \<open>-3\<close> and \<open>-2\<close>, where the unsigned decoders return
  253 and 65534.
\<close>

theorem C7_register_operand_sign_extended:
  "IsRegisterOperandType e (GetOperandType e (bytecode_field s) operand_index) \<Longrightarrow>
   (SizeOfOperand e (GetOperandType e (bytecode_field s) operand_index) = kByte \<longrightarrow>
      BytecodeOperandReg e s operand_index = BytecodeOperandSignExtended e s operand_index) \<and>
   (SizeOfOperand e (GetOperandType e (bytecode_field s) operand_index) = kShort \<longrightarrow>
      BytecodeOperandReg e s operand_index
        = BytecodeOperandShortSignExtended e s operand_index)"
  by (simp add: BytecodeOperandReg_def Let_def)

text \<open>
  C8. On a target of pointer width 32 or 64, \<^verbatim>\<open>RegisterLocation\<close> is the frame base plus
  the register index times the pointer size, and \<^verbatim>\<open>NextRegister\<close> is the index minus
  one, in the arithmetic of pointer-sized words. Both functions return a value and take
  no state to change.
\<close>

theorem C8_register_arithmetic:
  fixes s :: "'w::len state"
  assumes "LENGTH('w) = 32 \<or> LENGTH('w) = 64"
  shows "RegisterLocation s i = RegisterFileRawPointer s + i * of_nat (kPointerSize TYPE('w))
       \<and> NextRegister i = i - 1"
  using assms
  by (auto simp: RegisterLocation_def RegisterFrameOffset_def IntPtrAdd_def WordShl_def
        kPointerSizeLog2_def kPointerSize_def NextRegister_def Int32Constant_m1 push_bit_eq_mult)

section \<open>Byte-addressed memory\<close>

lemma write_bytes_other:
  "(\<And>i. i < length bs \<Longrightarrow> x \<noteq> a + of_nat i) \<Longrightarrow> write_bytes m a bs x = m x"
proof (induction bs arbitrary: m a)
  case Nil
  show ?case by simp
next
  case (Cons b bs)
  have "x \<noteq> a" using Cons.prems[of 0] by simp
  moreover have "write_bytes (m(a := b)) (a + 1) bs x = (m(a := b)) x"
  proof (rule Cons.IH)
    fix i assume "i < length bs"
    then show "x \<noteq> a + 1 + of_nat i"
      using Cons.prems[of "Suc i"] by (simp add: add.assoc)
  qed
  ultimately show ?case by simp
qed


lemma read_write_same:
  fixes a :: "'w::len word"
  assumes "length bs \<le> 2 ^ LENGTH('w)"
  shows "read_bytes (write_bytes m a bs) a (length bs) = bs"
  using assms
proof (induction bs arbitrary: m a)
  case Nil
  show ?case by simp
next
  case (Cons b bs)
  have "write_bytes (m(a := b)) (a + 1) bs a = (m(a := b)) a"
  proof (rule write_bytes_other)
    fix i assume i: "i < length bs"
    have "(of_nat (Suc i) :: 'w word) \<noteq> 0"
      using i Cons.prems by (intro of_nat_neq_0) auto
    then show "a \<noteq> a + 1 + of_nat i"
      by (simp add: add.assoc)
  qed
  moreover have "read_bytes (write_bytes (m(a := b)) (a + 1) bs) (a + 1) (length bs) = bs"
    using Cons.prems by (intro Cons.IH) simp
  ultimately show ?case by simp
qed


lemma bit_from_le_bytes:
  "bit (from_le_bytes bs :: 'b::len word) k \<longleftrightarrow>
     k < LENGTH('b) \<and> k div 8 < length bs \<and> bit (bs ! (k div 8)) (k mod 8)"
proof (induction bs arbitrary: k)
  case Nil
  show ?case by simp
next
  case (Cons b bs)
  show ?case
  proof (cases "k < 8")
    case True
    then show ?thesis
      by (auto simp: bit_simps dest: bit_imp_le_length)
  next
    case False
    then have k: "8 \<le> k" by simp
    then have d: "k div 8 = Suc ((k - 8) div 8)" "k mod 8 = (k - 8) mod 8"
      by (simp_all add: le_div_geq le_mod_geq)
    have nb: "\<not> bit b k"
      using False bit_imp_le_length[of b k] by auto
    show ?thesis
      using k nb by (auto simp: bit_simps Cons.IH d)
  qed
qed

lemma length_to_le_bytes: "length (to_le_bytes v n) = n"
  by (simp add: to_le_bytes_def)

lemma from_le_bytes_to_le_bytes:
  fixes v :: "'b::len word"
  assumes "LENGTH('b) \<le> 8 * n"
  shows "from_le_bytes (to_le_bytes v n) = v"
proof (rule bit_word_eqI)
  fix k assume k: "k < LENGTH('b)"
  then have "k div 8 < n" using assms by auto
  then show "bit (from_le_bytes (to_le_bytes v n) :: 'b word) k = bit v k"
    using k by (simp add: bit_from_le_bytes to_le_bytes_def bit_simps)
qed

lemma load_store_same:
  fixes a :: "'w::len word" and v :: "'b::len word"
  assumes "LENGTH('b) \<le> 8 * n" and "n \<le> 2 ^ LENGTH('w)"
  shows "load_int le (store_int le m a n v) a n = v"
proof -
  let ?bs = "if le then to_le_bytes v n else rev (to_le_bytes v n)"
  have len: "length ?bs = n" by (simp add: length_to_le_bytes)
  have "read_bytes (write_bytes m a ?bs) a n = ?bs"
    using read_write_same[where bs = ?bs and a = a and m = m] assms(2) len by simp
  then show ?thesis
    using from_le_bytes_to_le_bytes[OF assms(1), of v]
    by (simp add: load_int_def store_int_def Let_def)
qed

text \<open>Two ranges of \<open>n\<close> bytes are disjoint when each start is at least \<open>n\<close> bytes after
  the other, going around the address space.\<close>

lemma ranges_disjoint:
  fixes a b :: "'w::len word"
  assumes "n \<le> unat (b - a)" and "n \<le> unat (a - b)" and "i < n" and "j < n"
  shows "b + of_nat j \<noteq> a + of_nat i"
proof
  assume eq: "b + of_nat j = a + of_nat i"
  have n: "n \<le> 2 ^ LENGTH('w)"
    using assms(1) unsigned_less[of "b - a"] by (meson le_trans less_imp_le_nat)
  show False
  proof (cases "j \<le> i")
    case True
    have "b - a = of_nat i - of_nat j"
      using eq by (simp add: algebra_simps)
    also have "\<dots> = of_nat (i - j)"
      using True by simp
    finally have "unat (b - a) = (i - j) mod 2 ^ LENGTH('w)"
      by (simp add: unat_of_nat)
    moreover have "i - j < 2 ^ LENGTH('w)" using assms(3) n by simp
    ultimately have "unat (b - a) = i - j" by simp
    then show False using assms(1,3) by simp
  next
    case False
    then have ji: "i \<le> j" by simp
    have "a - b = of_nat j - of_nat i"
      using eq by (simp add: algebra_simps)
    also have "\<dots> = of_nat (j - i)"
      using ji by simp
    finally have "unat (a - b) = (j - i) mod 2 ^ LENGTH('w)"
      by (simp add: unat_of_nat)
    moreover have "j - i < 2 ^ LENGTH('w)" using assms(4) n by simp
    ultimately have "unat (a - b) = j - i" by simp
    then show False using assms(2,4) by simp
  qed
qed


lemma store_int_other:
  assumes "\<And>i. i < n \<Longrightarrow> x \<noteq> a + of_nat i"
  shows "store_int le m a n v x = m x"
proof -
  let ?bs = "if le then to_le_bytes v n else rev (to_le_bytes v n)"
  have len: "length ?bs = n" by (simp add: length_to_le_bytes)
  have "write_bytes m a ?bs x = m x"
    using assms len by (intro write_bytes_other) auto
  then show ?thesis by (simp add: store_int_def Let_def)
qed

lemma pointer_bytes:
  assumes "LENGTH('w::len) = 32 \<or> LENGTH('w) = 64"
  shows "LENGTH('w) \<le> 8 * kPointerSize TYPE('w)"
    and "kPointerSize TYPE('w) \<le> 2 ^ LENGTH('w)"
  using assms by (auto simp: kPointerSize_def)

section \<open>Properties of the call protocol\<close>

lemma StoreRegister_eq:
  "StoreRegister e s v offset =
     s\<lparr>memory := store_int (V8_TARGET_LITTLE_ENDIAN e) (memory s)
                   (RegisterFileRawPointer s + Int32Constant offset) (kPointerSize TYPE('w)) v\<rparr>"
  for s :: "'w::len state"
  by (simp add: StoreRegister_def StoreNoWriteBarrier_def)

lemma LoadRegister_eq:
  "LoadRegister e s offset =
     load_int (V8_TARGET_LITTLE_ENDIAN e) (memory s)
       (RegisterFileRawPointer s + Int32Constant offset) (kPointerSize TYPE('w))"
  for s :: "'w::len state"
  by (simp add: LoadRegister_def Load_def)

lemma RegisterFileRawPointer_update [simp]:
  "RegisterFileRawPointer (s\<lparr>memory := m\<rparr>) = RegisterFileRawPointer s"
  "RegisterFileRawPointer (s\<lparr>stack_pointer_before_call_field := b\<rparr>) = RegisterFileRawPointer s"
  "RegisterFileRawPointer (s\<lparr>disable_stack_check_across_call_field := d\<rparr>) = RegisterFileRawPointer s"
  "RegisterFileRawPointer (s\<lparr>dispatch_table_var := t\<rparr>) = RegisterFileRawPointer s"
  "RegisterFileRawPointer (s\<lparr>context_var := c\<rparr>) = RegisterFileRawPointer s"
  "RegisterFileRawPointer (s\<lparr>stack_pointer := p\<rparr>) = RegisterFileRawPointer s"
  "RegisterFileRawPointer (s\<lparr>calls := l\<rparr>) = RegisterFileRawPointer s"
  by (simp_all add: RegisterFileRawPointer_def)

text \<open>The memory the prologue leaves: both frame slots written, the bytecode offset first.\<close>

lemma CallPrologue_eq:
  fixes s :: "'w::len state"
  shows "CallPrologue e s =
    (let m = store_int (V8_TARGET_LITTLE_ENDIAN e)
               (store_int (V8_TARGET_LITTLE_ENDIAN e) (memory s)
                  (RegisterFileRawPointer s + Int32Constant (kBytecodeOffsetFromRegisterPointer e))
                  (kPointerSize TYPE('w)) (SmiTag e (BytecodeOffset s)))
               (RegisterFileRawPointer s + Int32Constant (kDispatchTableFromRegisterPointer e))
               (kPointerSize TYPE('w)) (dispatch_table_var s)
     in if FLAG_debug_code e \<and> \<not> disable_stack_check_across_call_field s then
          (if DEBUG e \<and> stack_pointer_before_call_field s \<noteq> None
           then Inl (Fatal, s\<lparr>memory := m\<rparr>)
           else Inr (s\<lparr>memory := m, stack_pointer_before_call_field := Some (stack_pointer s)\<rparr>))
        else Inr (s\<lparr>memory := m\<rparr>))"
  by (simp add: CallPrologue_def StoreRegister_eq Let_def DCHECK_def DispatchTableRawPointer_def
        LoadStackPointer_def)

lemma CallEpilogue_eq:
  fixes s :: "'w::len state"
  shows "CallEpilogue e s =
    (if FLAG_debug_code e \<and> \<not> disable_stack_check_across_call_field s then
       (case stack_pointer_before_call_field s of
          None \<Rightarrow> Inl (Fatal, s)
        | Some stack_pointer_before_call \<Rightarrow>
            if stack_pointer_before_call = stack_pointer s
            then Inr (s\<lparr>stack_pointer_before_call_field := None,
                        dispatch_table_var :=
                          LoadRegister e s (kDispatchTableFromRegisterPointer e)\<rparr>)
            else Inl (Abort e (s\<lparr>stack_pointer_before_call_field := None\<rparr>)
                        (kUnexpectedStackPointer e)))
     else Inr (s\<lparr>dispatch_table_var := LoadRegister e s (kDispatchTableFromRegisterPointer e)\<rparr>))"
  by (simp add: CallEpilogue.simps AbortIfWordNotEqual.simps Branch_def WordEqual_def
        LoadStackPointer_def LoadRegister_eq split: option.splits)

lemma CallRuntime_CallStub:
  "CallRuntime e s function_id context_arg args
     = CallStub e s (RuntimeFunction function_id) context_arg args"
  by (simp add: CallRuntime.simps CallStub_def)

lemma CallStub_unchecked:
  fixes s :: "'w::len state"
  assumes "\<not> FLAG_debug_code e \<or> disable_stack_check_across_call_field s"
  shows "CallStub e s code_target context_arg args =
    (let m = store_int (V8_TARGET_LITTLE_ENDIAN e)
               (store_int (V8_TARGET_LITTLE_ENDIAN e) (memory s)
                  (RegisterFileRawPointer s + Int32Constant (kBytecodeOffsetFromRegisterPointer e))
                  (kPointerSize TYPE('w)) (SmiTag e (BytecodeOffset s)))
               (RegisterFileRawPointer s + Int32Constant (kDispatchTableFromRegisterPointer e))
               (kPointerSize TYPE('w)) (dispatch_table_var s)
     in case run_callee e code_target (context_arg # args) m (stack_pointer s) of
          (return_value, m', sp') \<Rightarrow>
            Inr (return_value,
                 s\<lparr>memory := m', stack_pointer := sp',
                   calls := calls s @ [(code_target, context_arg # args)],
                   dispatch_table_var :=
                     load_int (V8_TARGET_LITTLE_ENDIAN e) m'
                       (RegisterFileRawPointer s
                          + Int32Constant (kDispatchTableFromRegisterPointer e))
                       (kPointerSize TYPE('w))\<rparr>))"
  using assms
  by (auto simp: CallStub_def CallPrologue_eq CallEpilogue_eq raw_call_def Let_def
        LoadRegister_eq split: prod.splits)

lemma Abort_eq:
  fixes s :: "'w::len state"
  shows "Abort e s bailout_reason =
    (let m = store_int (V8_TARGET_LITTLE_ENDIAN e)
               (store_int (V8_TARGET_LITTLE_ENDIAN e) (memory s)
                  (RegisterFileRawPointer s + Int32Constant (kBytecodeOffsetFromRegisterPointer e))
                  (kPointerSize TYPE('w)) (SmiTag e (BytecodeOffset s)))
               (RegisterFileRawPointer s + Int32Constant (kDispatchTableFromRegisterPointer e))
               (kPointerSize TYPE('w)) (dispatch_table_var s);
         args = [GetContext s, SmiTag e (Int32Constant bailout_reason)]
     in case run_callee e (RuntimeFunction kAbort) args m (stack_pointer s) of
          (ret_value, m', sp') \<Rightarrow>
            (Return ret_value,
             s\<lparr>memory := m', stack_pointer := sp',
               calls := calls s @ [(RuntimeFunction kAbort, args)],
               dispatch_table_var :=
                 load_int (V8_TARGET_LITTLE_ENDIAN e) m'
                   (RegisterFileRawPointer s
                      + Int32Constant (kDispatchTableFromRegisterPointer e))
                   (kPointerSize TYPE('w)),
               disable_stack_check_across_call_field := False\<rparr>))"
proof -
  let ?s1 = "s\<lparr>disable_stack_check_across_call_field := True\<rparr>"
  have "\<not> FLAG_debug_code e \<or> disable_stack_check_across_call_field ?s1" by simp
  from CallStub_unchecked[OF this]
  show ?thesis
    by (simp add: Abort.simps CallRuntime_CallStub Let_def BytecodeOffset_def
          split: prod.splits)
qed

text \<open>The call protocol in one equation: the prologue's stores, the call, the debug check
  of the stack pointer, the reload of the dispatch table.\<close>

lemma CallStub_eq:
  fixes s :: "'w::len state"
  shows "CallStub e s code_target context_arg args =
    (let check = FLAG_debug_code e \<and> \<not> disable_stack_check_across_call_field s;
         m = store_int (V8_TARGET_LITTLE_ENDIAN e)
               (store_int (V8_TARGET_LITTLE_ENDIAN e) (memory s)
                  (RegisterFileRawPointer s + Int32Constant (kBytecodeOffsetFromRegisterPointer e))
                  (kPointerSize TYPE('w)) (SmiTag e (BytecodeOffset s)))
               (RegisterFileRawPointer s + Int32Constant (kDispatchTableFromRegisterPointer e))
               (kPointerSize TYPE('w)) (dispatch_table_var s)
     in if check \<and> DEBUG e \<and> stack_pointer_before_call_field s \<noteq> None
        then Inl (Fatal, s\<lparr>memory := m\<rparr>)
        else
          case run_callee e code_target (context_arg # args) m (stack_pointer s) of
            (return_value, m', sp') \<Rightarrow>
              (let s2 = s\<lparr>memory := m', stack_pointer := sp',
                          calls := calls s @ [(code_target, context_arg # args)]\<rparr>
               in if check \<and> sp' \<noteq> stack_pointer s
                  then Inl (Abort e (s2\<lparr>stack_pointer_before_call_field := None\<rparr>)
                              (kUnexpectedStackPointer e))
                  else Inr (return_value,
                            s2\<lparr>stack_pointer_before_call_field :=
                                  (if check then None else stack_pointer_before_call_field s),
                                dispatch_table_var :=
                                  load_int (V8_TARGET_LITTLE_ENDIAN e) m'
                                    (RegisterFileRawPointer s
                                       + Int32Constant (kDispatchTableFromRegisterPointer e))
                                    (kPointerSize TYPE('w))\<rparr>)))"
  by (auto simp: CallStub_def CallPrologue_eq CallEpilogue_eq raw_call_def Let_def
        LoadRegister_eq split: prod.splits)

lemma TraceBytecode_CallStub:
  "TraceBytecode e s function_id =
     CallStub e s (RuntimeFunction function_id) (GetContext s)
       [BytecodeArrayTaggedPointer s, SmiTag e (BytecodeOffset s), GetAccumulator s]"
  by (simp add: TraceBytecode_def CallRuntime_CallStub)

lemma CallStub_Inl:
  assumes "CallStub e s code_target context_arg args = Inl (x, s')"
  shows "FLAG_debug_code e \<and> \<not> disable_stack_check_across_call_field s
         \<and> (x = Fatal \<and> DEBUG e \<and> stack_pointer_before_call_field s \<noteq> None
                \<and> calls s' = calls s
            \<or> (\<exists>ret_value. x = Return ret_value)
                \<and> calls s' = calls s @ [(code_target, context_arg # args),
                     (RuntimeFunction kAbort,
                      [GetContext s, SmiTag e (Int32Constant (kUnexpectedStackPointer e))])])"
  using assms
  by (auto simp: CallStub_eq Abort_eq Let_def GetContext_def
        split: if_splits prod.splits)

lemma CallStub_Inr:
  fixes s :: "'w::len state"
  assumes "CallStub e s code_target context_arg args = Inr (return_value, s')"
  shows "dispatch_table_var s' = LoadRegister e s' (kDispatchTableFromRegisterPointer e)"
    and "calls s' = calls s @ [(code_target, context_arg # args)]"
    and "accumulator_var s' = accumulator_var s"
    and "context_var s' = context_var s"
    and "Parameter s' = Parameter s"
    and "bytecode_field s' = bytecode_field s"
    and "disable_stack_check_across_call_field s' = disable_stack_check_across_call_field s"
    and "\<exists>s1. CallPrologue e s = Inr s1
           \<and> run_callee e code_target (context_arg # args) (memory s1) (stack_pointer s1)
               = (return_value, memory s', stack_pointer s')"
  using assms
  by (auto simp: CallStub_eq CallPrologue_eq Let_def LoadRegister_eq RegisterFileRawPointer_def
        split: if_splits prod.splits)

lemma CallStub_continues:
  assumes "\<not> FLAG_debug_code e \<or> disable_stack_check_across_call_field s
           \<or> stack_pointer_before_call_field s = None
              \<and> (\<forall>m sp. snd (snd (run_callee e code_target (context_arg # args) m sp)) = sp)"
  shows "\<exists>return_value s'. CallStub e s code_target context_arg args = Inr (return_value, s')"
proof -
  obtain r m' sp' where rc: "run_callee e code_target (context_arg # args)
       (store_int (V8_TARGET_LITTLE_ENDIAN e)
               (store_int (V8_TARGET_LITTLE_ENDIAN e) (memory s)
                  (RegisterFileRawPointer s + Int32Constant (kBytecodeOffsetFromRegisterPointer e))
                  (kPointerSize TYPE('a)) (SmiTag e (BytecodeOffset s)))
               (RegisterFileRawPointer s + Int32Constant (kDispatchTableFromRegisterPointer e))
               (kPointerSize TYPE('a)) (dispatch_table_var s)) (stack_pointer s) = (r, m', sp')"
    using prod_cases3 by blast
  have "FLAG_debug_code e \<Longrightarrow> \<not> disable_stack_check_across_call_field s
          \<Longrightarrow> sp' = stack_pointer s"
    using assms rc by (metis snd_conv)
  then show ?thesis
    using assms rc by (auto simp: CallStub_eq Let_def)
qed

section \<open>Properties of dispatch\<close>

lemma DispatchTo_untraced:
  fixes s :: "'w::len state"
  assumes "\<not> FLAG_trace_ignition e"
  shows "DispatchTo e s new_bytecode_offset =
     (TailCall
        (Load e s Pointer (DispatchTableRawPointer s)
           (Word32Shl (Load e s Uint8 (BytecodeArrayTaggedPointer s) new_bytecode_offset)
              (Int32Constant (int (kPointerSizeLog2 TYPE('w))))))
        [GetAccumulator s, RegisterFileRawPointer s, new_bytecode_offset,
         BytecodeArrayTaggedPointer s, DispatchTableRawPointer s, GetContext s], s)"
  using assms by (simp add: DispatchTo_def Let_def)

lemma DispatchTo_TailCall:
  fixes s :: "'w::len state"
  assumes "DispatchTo e s new_bytecode_offset = (TailCall target args, s')"
  shows "args = [GetAccumulator s, RegisterFileRawPointer s, new_bytecode_offset,
                 BytecodeArrayTaggedPointer s, DispatchTableRawPointer s', GetContext s]"
    and "target = Load e s' Pointer (DispatchTableRawPointer s')
           (Word32Shl (Load e s' Uint8 (BytecodeArrayTaggedPointer s') new_bytecode_offset)
              (Int32Constant (int (kPointerSizeLog2 TYPE('w)))))"
    and "GetAccumulator s' = GetAccumulator s" and "GetContext s' = GetContext s"
    and "Parameter s' = Parameter s"
    and "FLAG_trace_ignition e \<Longrightarrow>
           DispatchTableRawPointer s' = LoadRegister e s' (kDispatchTableFromRegisterPointer e)"
    and "\<not> FLAG_trace_ignition e \<Longrightarrow> s' = s"
    and "FLAG_trace_ignition e \<Longrightarrow>
           \<exists>r. TraceBytecode e s kInterpreterTraceBytecodeExit = Inr (r, s')"
proof -
  show "\<not> FLAG_trace_ignition e \<Longrightarrow> s' = s"
    using assms by (simp add: DispatchTo_untraced)
  have traced: "\<exists>r. TraceBytecode e s kInterpreterTraceBytecodeExit = Inr (r, s')"
    if "FLAG_trace_ignition e"
    using that assms
      CallStub_Inl[of e s "RuntimeFunction kInterpreterTraceBytecodeExit" "GetContext s"
        "[BytecodeArrayTaggedPointer s, SmiTag e (BytecodeOffset s), GetAccumulator s]"]
    by (cases "TraceBytecode e s kInterpreterTraceBytecodeExit")
      (auto simp: DispatchTo_def Let_def TraceBytecode_CallStub split: if_splits)
  then show "FLAG_trace_ignition e \<Longrightarrow>
           \<exists>r. TraceBytecode e s kInterpreterTraceBytecodeExit = Inr (r, s')" .
  have main: "args = [GetAccumulator s, RegisterFileRawPointer s, new_bytecode_offset,
                 BytecodeArrayTaggedPointer s, DispatchTableRawPointer s', GetContext s]
    \<and> target = Load e s' Pointer (DispatchTableRawPointer s')
           (Word32Shl (Load e s' Uint8 (BytecodeArrayTaggedPointer s') new_bytecode_offset)
              (Int32Constant (int (kPointerSizeLog2 TYPE('w)))))
    \<and> GetAccumulator s' = GetAccumulator s \<and> GetContext s' = GetContext s
    \<and> Parameter s' = Parameter s
    \<and> (FLAG_trace_ignition e \<longrightarrow>
           DispatchTableRawPointer s' = LoadRegister e s' (kDispatchTableFromRegisterPointer e))"
  proof (cases "FLAG_trace_ignition e")
    case False
    then show ?thesis using assms by (auto simp: DispatchTo_untraced)
  next
    case True
    from traced[OF True] obtain r where
      tr: "TraceBytecode e s kInterpreterTraceBytecodeExit = Inr (r, s')" ..
    note p = CallStub_Inr[OF tr[unfolded TraceBytecode_CallStub]]
    show ?thesis
      using assms True tr p(1,3,4,5)
      by (simp add: DispatchTo_def Let_def GetAccumulator_def GetContext_def
          RegisterFileRawPointer_def BytecodeArrayTaggedPointer_def DispatchTableRawPointer_def)
  qed
  then show "args = [GetAccumulator s, RegisterFileRawPointer s, new_bytecode_offset,
                 BytecodeArrayTaggedPointer s, DispatchTableRawPointer s', GetContext s]"
    and "target = Load e s' Pointer (DispatchTableRawPointer s')
           (Word32Shl (Load e s' Uint8 (BytecodeArrayTaggedPointer s') new_bytecode_offset)
              (Int32Constant (int (kPointerSizeLog2 TYPE('w)))))"
    and "GetAccumulator s' = GetAccumulator s" and "GetContext s' = GetContext s"
    and "Parameter s' = Parameter s"
    and "FLAG_trace_ignition e \<Longrightarrow>
           DispatchTableRawPointer s' = LoadRegister e s' (kDispatchTableFromRegisterPointer e)"
    by simp_all
qed

text \<open>A call whose callee leaves the memory as it was leaves the content of the frame slot
  of the dispatch table as the dispatch-table variable had it before the call.\<close>

lemma CallStub_slot_kept:
  fixes s :: "'w::len state"
  assumes "LENGTH('w) = 32 \<or> LENGTH('w) = 64"
    and "CallStub e s code_target context_arg args = Inr (return_value, s')"
    and "\<forall>m sp. fst (snd (run_callee e code_target (context_arg # args) m sp)) = m"
  shows "LoadRegister e s' (kDispatchTableFromRegisterPointer e) = dispatch_table_var s"
proof -
  let ?k = "kPointerSize TYPE('w)"
  let ?le = "V8_TARGET_LITTLE_ENDIAN e"
  let ?m = "store_int ?le
               (store_int ?le (memory s)
                  (RegisterFileRawPointer s + Int32Constant (kBytecodeOffsetFromRegisterPointer e))
                  ?k (SmiTag e (BytecodeOffset s)))
               (RegisterFileRawPointer s + Int32Constant (kDispatchTableFromRegisterPointer e))
               ?k (dispatch_table_var s)"
  from CallStub_Inr(5,8)[OF assms(2)] obtain s1 where
    p: "Parameter s' = Parameter s" "CallPrologue e s = Inr s1"
      "run_callee e code_target (context_arg # args) (memory s1) (stack_pointer s1)
         = (return_value, memory s', stack_pointer s')"
    by blast
  have "memory s1 = ?m"
    using p(2) by (auto simp: CallPrologue_eq Let_def split: if_splits)
  moreover have "memory s' = memory s1"
    using p(3) assms(3) by (metis fst_conv snd_conv)
  ultimately have "LoadRegister e s' (kDispatchTableFromRegisterPointer e)
      = load_int ?le ?m
          (RegisterFileRawPointer s + Int32Constant (kDispatchTableFromRegisterPointer e)) ?k"
    using p(1) by (simp add: LoadRegister_eq RegisterFileRawPointer_def)
  also have "\<dots> = dispatch_table_var s"
    by (rule load_store_same[OF pointer_bytes[OF assms(1)]])
  finally show ?thesis .
qed


text \<open>
  C3. When \<^verbatim>\<open>CallJS\<close>, \<^verbatim>\<open>CallConstruct\<close> or \<^verbatim>\<open>CallRuntimeN\<close> returns, the memory is the
  memory the callee left, whatever the callee wrote into it, and the dispatch-table
  pointer is the content of the reserved frame slot in that memory, whatever
  dispatch-table pointer was active before the call. Every \<^verbatim>\<open>DispatchTo\<close>
  that follows and ends in its tail call passes, and looks the handler up in, the table
  that the frame slot holds at that moment. That is the table the frame slot held when the
  call returned, on a target of pointer width 32 or 64, when tracing is off (then
  \<^verbatim>\<open>DispatchTo\<close> calls nothing) or the trace function leaves the memory as it was.
\<close>

theorem C3_dispatch_table_reloaded_after_call:
  fixes e :: "('w::len, 'ot) env" and s :: "'w state"
  assumes "CallJS e s function_arg context_arg first_arg arg_count = Inr (r, s')
         \<or> CallConstruct e s constructor context_arg new_target first_arg arg_count
              = Inr (r, s')
         \<or> CallRuntimeN e s function_id context_arg first_arg arg_count result_size
              = Inr (r, s')"
  shows "(\<exists>code_target args s1. CallPrologue e s = Inr s1
            \<and> run_callee e code_target args (memory s1) (stack_pointer s1)
                = (r, memory s', stack_pointer s'))
       \<and> DispatchTableRawPointer s' = LoadRegister e s' (kDispatchTableFromRegisterPointer e)
       \<and> (\<forall>new_bytecode_offset target args s''.
             DispatchTo e s' new_bytecode_offset = (TailCall target args, s'') \<longrightarrow>
               (\<exists>a0 a1 a2 a3 a5.
                   args = [a0, a1, a2, a3,
                           LoadRegister e s'' (kDispatchTableFromRegisterPointer e), a5])
             \<and> target =
                 Load e s'' Pointer (LoadRegister e s'' (kDispatchTableFromRegisterPointer e))
                   (Word32Shl
                      (Load e s'' Uint8 (BytecodeArrayTaggedPointer s'') new_bytecode_offset)
                      (Int32Constant (int (kPointerSizeLog2 TYPE('w)))))
             \<and> (\<not> FLAG_trace_ignition e \<longrightarrow> s'' = s')
             \<and> ((LENGTH('w) = 32 \<or> LENGTH('w) = 64)
                  \<and> (\<not> FLAG_trace_ignition e
                     \<or> (\<forall>a m sp. fst (snd (run_callee e
                                 (RuntimeFunction kInterpreterTraceBytecodeExit) a m sp)) = m))
                \<longrightarrow> LoadRegister e s'' (kDispatchTableFromRegisterPointer e)
                      = LoadRegister e s' (kDispatchTableFromRegisterPointer e)))"
proof -
  from assms obtain code_target args where
    stub: "CallStub e s code_target context_arg args = Inr (r, s')"
    by (auto simp: CallJS_def CallConstruct_def CallRuntimeN_def Let_def)
  note p = CallStub_Inr[OF stub]
  have slot: "DispatchTableRawPointer s' = LoadRegister e s' (kDispatchTableFromRegisterPointer e)"
    using p(1) by (simp add: DispatchTableRawPointer_def)
  have after: "(\<exists>a0 a1 a2 a3 a5.
                   args' = [a0, a1, a2, a3,
                            LoadRegister e s'' (kDispatchTableFromRegisterPointer e), a5])
             \<and> target =
                 Load e s'' Pointer (LoadRegister e s'' (kDispatchTableFromRegisterPointer e))
                   (Word32Shl
                      (Load e s'' Uint8 (BytecodeArrayTaggedPointer s'') new_bytecode_offset)
                      (Int32Constant (int (kPointerSizeLog2 TYPE('w)))))
             \<and> (\<not> FLAG_trace_ignition e \<longrightarrow> s'' = s')
             \<and> ((LENGTH('w) = 32 \<or> LENGTH('w) = 64)
                  \<and> (\<not> FLAG_trace_ignition e
                     \<or> (\<forall>a m sp. fst (snd (run_callee e
                                 (RuntimeFunction kInterpreterTraceBytecodeExit) a m sp)) = m))
                \<longrightarrow> LoadRegister e s'' (kDispatchTableFromRegisterPointer e)
                      = LoadRegister e s' (kDispatchTableFromRegisterPointer e))"
    if d: "DispatchTo e s' new_bytecode_offset = (TailCall target args', s'')"
    for new_bytecode_offset target args' s''
  proof -
    note q = DispatchTo_TailCall[OF d]
    have t: "DispatchTableRawPointer s''
               = LoadRegister e s'' (kDispatchTableFromRegisterPointer e)"
      using q(6,7) slot by (cases "FLAG_trace_ignition e") auto
    have kept: "LoadRegister e s'' (kDispatchTableFromRegisterPointer e)
                  = LoadRegister e s' (kDispatchTableFromRegisterPointer e)"
      if w: "LENGTH('w) = 32 \<or> LENGTH('w) = 64"
        and tr: "\<not> FLAG_trace_ignition e
                 \<or> (\<forall>a m sp. fst (snd (run_callee e
                          (RuntimeFunction kInterpreterTraceBytecodeExit) a m sp)) = m)"
    proof (cases "FLAG_trace_ignition e")
      case False
      then show ?thesis using q(7) by simp
    next
      case True
      from q(8)[OF True] obtain r' where
        "CallStub e s' (RuntimeFunction kInterpreterTraceBytecodeExit) (GetContext s')
           [BytecodeArrayTaggedPointer s', SmiTag e (BytecodeOffset s'), GetAccumulator s']
         = Inr (r', s'')"
        unfolding TraceBytecode_CallStub by blast
      from CallStub_slot_kept[OF w this] tr True slot show ?thesis
        by (simp add: DispatchTableRawPointer_def)
    qed
    show ?thesis
      using q(1,2,7) t kept by auto
  qed
  show ?thesis
    using p(8) slot after by blast
qed



text \<open>
  C6. \<^verbatim>\<open>JumpConditional\<close> is \<^verbatim>\<open>DispatchTo\<close> at the current bytecode offset plus the delta
  when the condition is not zero, and at the current offset plus the size of the current
  bytecode when it is zero; when it ends in its tail call, the bytecode offset it passes is
  that offset, and without tracing it always ends in that tail call.
\<close>

theorem C6_jump_conditional:
  fixes e :: "('w::len, 'ot) env" and s :: "'w state"
  shows "(condition \<noteq> 0 \<longrightarrow>
            JumpConditional e s condition delta = DispatchTo e s (BytecodeOffset s + delta))
       \<and> (condition = 0 \<longrightarrow>
            JumpConditional e s condition delta
              = DispatchTo e s (BytecodeOffset s + Int32Constant (Size e (bytecode_field s))))
       \<and> (\<forall>target args s'.
            JumpConditional e s condition delta = (TailCall target args, s') \<longrightarrow>
              (\<exists>a0 a1 a3 a4 a5.
                 args = [a0, a1,
                         BytecodeOffset s
                           + (if condition \<noteq> 0 then delta
                              else Int32Constant (Size e (bytecode_field s))),
                         a3, a4, a5]))
       \<and> (\<not> FLAG_trace_ignition e \<longrightarrow>
            (\<exists>target args. JumpConditional e s condition delta = (TailCall target args, s)))"
proof -
  have eq: "JumpConditional e s condition delta
              = DispatchTo e s (BytecodeOffset s
                   + (if condition \<noteq> 0 then delta
                      else Int32Constant (Size e (bytecode_field s))))"
    by (simp add: JumpConditional_def Branch_def Dispatch_def Advance_def Advance_int_def
          IntPtrAdd_def)
  have t: "\<exists>a0 a1 a3 a4 a5.
                 args = [a0, a1,
                         BytecodeOffset s
                           + (if condition \<noteq> 0 then delta
                              else Int32Constant (Size e (bytecode_field s))),
                         a3, a4, a5]"
    if "JumpConditional e s condition delta = (TailCall target args, s')" for target args s'
    using DispatchTo_TailCall(1)[OF that[unfolded eq]] by blast
  have u: "\<not> FLAG_trace_ignition e \<Longrightarrow>
             \<exists>target args. JumpConditional e s condition delta = (TailCall target args, s)"
    unfolding eq by (simp add: DispatchTo_untraced)
  show ?thesis using eq t u by (auto simp del: if_split)
qed

section \<open>The stack guard and the context\<close>

text \<open>
  C9. Outside a call (the assembler's \<^verbatim>\<open>stack_pointer_before_call_\<close> is \<^verbatim>\<open>nullptr\<close>):
  when the stack pointer is not below the stack limit, \<^verbatim>\<open>StackCheck\<close> returns the state
  it was given, so it calls nothing and changes nothing. When the stack pointer is below
  the limit and \<^verbatim>\<open>StackCheck\<close> continues, it has made exactly one call, the runtime
  function \<^verbatim>\<open>kStackGuard\<close> with the context; it continues in every build that does not
  check the stack pointer across calls, and in a checking build whenever the stack guard
  returns with the stack pointer it was called with. It does not continue only when the
  debug check of the epilogue fails: then the handler returns after the calls of the stack
  guard and of \<^verbatim>\<open>kAbort\<close>.
\<close>

theorem C9_stack_check:
  fixes e :: "('w::len, 'ot) env" and s :: "'w state"
  assumes "stack_pointer_before_call_field s = None"
  shows "(Load e s Pointer (address_of_stack_limit e) 0 \<le> LoadStackPointer s \<longrightarrow>
            StackCheck e s = Inr s)
       \<and> (LoadStackPointer s < Load e s Pointer (address_of_stack_limit e) 0 \<longrightarrow>
            (\<forall>s'. StackCheck e s = Inr s' \<longrightarrow>
                 calls s' = calls s @ [(RuntimeFunction kStackGuard, [GetContext s])])
          \<and> (\<forall>x s'. StackCheck e s = Inl (x, s') \<longrightarrow>
                 FLAG_debug_code e \<and> \<not> disable_stack_check_across_call_field s
               \<and> (\<exists>ret_value. x = Return ret_value)
               \<and> calls s' = calls s @
                    [(RuntimeFunction kStackGuard, [GetContext s]),
                     (RuntimeFunction kAbort,
                      [GetContext s, SmiTag e (Int32Constant (kUnexpectedStackPointer e))])])
          \<and> (\<not> FLAG_debug_code e \<or> disable_stack_check_across_call_field s
               \<or> (\<forall>m sp. snd (snd (run_callee e (RuntimeFunction kStackGuard)
                                          [GetContext s] m sp)) = sp)
              \<longrightarrow> (\<exists>s'. StackCheck e s = Inr s')))"
proof -
  let ?limit = "Load e s Pointer (address_of_stack_limit e) 0"
  let ?guard = "CallStub e s (RuntimeFunction kStackGuard) (GetContext s) []"
  have above: "StackCheck e s = Inr s" if "?limit \<le> LoadStackPointer s"
    using that assms
    by (simp add: StackCheck_def Let_def Branch_def UintPtrGreaterThanOrEqual_def DCHECK_def)
  have below: "StackCheck e s =
      (case ?guard of Inl x \<Rightarrow> Inl x | Inr (_, s1) \<Rightarrow> Inr s1)"
    if "LoadStackPointer s < ?limit"
    using that assms
    by (simp add: StackCheck_def Let_def Branch_def UintPtrGreaterThanOrEqual_def DCHECK_def
          CallRuntime_CallStub not_le[symmetric])
  have one: "calls s' = calls s @ [(RuntimeFunction kStackGuard, [GetContext s])]"
    if "LoadStackPointer s < ?limit" "StackCheck e s = Inr s'" for s'
  proof -
    from that obtain r where "?guard = Inr (r, s')"
      by (auto simp: below split: sum.splits)
    from CallStub_Inr(2)[OF this] show ?thesis .
  qed
  have aborted: "FLAG_debug_code e \<and> \<not> disable_stack_check_across_call_field s
               \<and> (\<exists>ret_value. x = Return ret_value)
               \<and> calls s' = calls s @
                    [(RuntimeFunction kStackGuard, [GetContext s]),
                     (RuntimeFunction kAbort,
                      [GetContext s, SmiTag e (Int32Constant (kUnexpectedStackPointer e))])]"
    if "LoadStackPointer s < ?limit" "StackCheck e s = Inl (x, s')" for x s'
  proof -
    from that have "?guard = Inl (x, s')"
      by (auto simp: below split: sum.splits)
    from CallStub_Inl[OF this] assms show ?thesis by auto
  qed
  have continues: "\<exists>s'. StackCheck e s = Inr s'"
    if "LoadStackPointer s < ?limit"
      "\<not> FLAG_debug_code e \<or> disable_stack_check_across_call_field s
       \<or> (\<forall>m sp. snd (snd (run_callee e (RuntimeFunction kStackGuard)
                                  [GetContext s] m sp)) = sp)"
  proof -
    have "\<exists>r s'. ?guard = Inr (r, s')"
      using that(2) assms by (intro CallStub_continues) auto
    then show ?thesis using that(1) by (auto simp: below)
  qed
  show ?thesis
    using above one aborted continues by blast
qed

text \<open>
  C10. On a target of pointer width 32 or 64: after \<^verbatim>\<open>SetContext\<close> the frame slot of the
  current-context register (what \<^verbatim>\<open>LoadRegister(Register::current_context())\<close> loads)
  holds the new context, the context variable is the new context,
  and every \<^verbatim>\<open>DispatchTo\<close> that follows and ends in its tail call passes it as the
  context. \<^verbatim>\<open>SetContext\<close> changes nothing but the context variable and the memory, and
  of the memory only the bytes of that frame slot.
\<close>

theorem C10_set_context:
  fixes e :: "('w::len, 'ot) env" and s :: "'w state"
  assumes "LENGTH('w) = 32 \<or> LENGTH('w) = 64"
  shows "LoadRegister_reg e (SetContext e s v) (current_context_ToOperand e) = v
       \<and> GetContext (SetContext e s v) = v
       \<and> (\<forall>new_bytecode_offset target args s'.
             DispatchTo e (SetContext e s v) new_bytecode_offset = (TailCall target args, s')
               \<longrightarrow> (\<exists>a0 a1 a2 a3 a4. args = [a0, a1, a2, a3, a4, v]))
       \<and> SetContext e s v = s\<lparr>context_var := v, memory := memory (SetContext e s v)\<rparr>
       \<and> (\<forall>x. (\<forall>i. i < kPointerSize TYPE('w) \<longrightarrow>
                    x \<noteq> RegisterFileRawPointer s
                          + Int32Constant (current_context_ToOperand e
                                             * 2 ^ kPointerSizeLog2 TYPE('w))
                          + of_nat i)
              \<longrightarrow> memory (SetContext e s v) x = memory s x)"
proof -
  let ?slot = "current_context_ToOperand e * 2 ^ kPointerSizeLog2 TYPE('w)"
  let ?a = "RegisterFileRawPointer s + Int32Constant ?slot"
  let ?m = "store_int (V8_TARGET_LITTLE_ENDIAN e) (memory s) ?a (kPointerSize TYPE('w)) v"
  have eq: "SetContext e s v = s\<lparr>context_var := v, memory := ?m\<rparr>"
    by (simp add: SetContext_def StoreRegister_reg_def StoreRegister_eq Let_def)
  have slot: "LoadRegister e (SetContext e s v) ?slot = v"
    unfolding eq LoadRegister_eq
    using load_store_same[OF pointer_bytes[OF assms], of "V8_TARGET_LITTLE_ENDIAN e"]
    by simp
  have ctx: "GetContext (SetContext e s v) = v"
    by (simp add: eq GetContext_def)
  have disp: "\<exists>a0 a1 a2 a3 a4. args = [a0, a1, a2, a3, a4, v]"
    if "DispatchTo e (SetContext e s v) new_bytecode_offset = (TailCall target args, s')"
    for new_bytecode_offset target args s'
    using DispatchTo_TailCall(1)[OF that] ctx by simp
  have frame: "memory (SetContext e s v) x = memory s x"
    if "\<forall>i. i < kPointerSize TYPE('w) \<longrightarrow> x \<noteq> ?a + of_nat i" for x
    using that by (simp add: eq store_int_other)
  have rec: "SetContext e s v = s\<lparr>context_var := v, memory := memory (SetContext e s v)\<rparr>"
    by (simp add: eq)
  have slot': "LoadRegister_reg e (SetContext e s v) (current_context_ToOperand e) = v"
    using slot by (simp add: LoadRegister_reg_def)
  show ?thesis
    using slot' ctx disp rec frame by blast
qed

section \<open>The claims at the concrete frame\<close>

lemma example_env_fields:
  "DEBUG example_env" "FLAG_debug_code example_env" "\<not> FLAG_trace_ignition example_env"
  "V8_TARGET_LITTLE_ENDIAN example_env" "V8_TARGET_ARCH example_env = X64"
  "NumberOfOperands example_env b = (if b = 7 then 2 else 1)"
  "GetOperandSize example_env b i = (if b = 7 then kByte else kShort)"
  "GetOperandType example_env b i = (if b = 7 then (if i = 0 then kIdx8 else kReg8) else kReg16)"
  "GetOperandOffset example_env b i = i + 1"
  "IsRegisterOperandType example_env t = (t \<noteq> kIdx8)"
  "SizeOfOperand example_env t = (if t = kReg16 then kShort else kByte)"
  "Size example_env b = 3"
  "kBytecodeOffsetFromRegisterPointer example_env = 8"
  "kDispatchTableFromRegisterPointer example_env = 16"
  "current_context_ToOperand example_env = 3"
  "kUnexpectedStackPointer example_env = 1"
  "SmiTag example_env = push_bit 32"
  "address_of_stack_limit example_env = 0x9000"
  "InterpreterExitTrampoline example_env = 0xE000"
  "run_callee example_env = example_callee"
  by (simp_all add: example_env_def)

lemma example_state_fields:
  "bytecode_field example_state = 7"
  "accumulator_var example_state = 0xAA"
  "context_var example_state = 0xCC"
  "dispatch_table_var example_state = 0x3000"
  "\<not> disable_stack_check_across_call_field example_state"
  "stack_pointer_before_call_field example_state = None"
  "Parameter example_state = example_Parameter"
  "memory example_state = example_memory"
  "stack_pointer example_state = 0x8000"
  "calls example_state = []"
  by (simp_all add: example_state_def)

lemma example_state_short_fields:
  "bytecode_field example_state_short = 9"
  "Parameter example_state_short = example_Parameter(kBytecodeOffsetParameter := 103)"
  "memory example_state_short = example_memory"
  by (simp_all add: example_state_short_def example_state_def)

theorem C1_bytewise_equals_direct_witness:
  "TargetSupportsUnalignedAccess example_env
   \<and> \<not> TargetSupportsUnalignedAccess (example_env\<lparr>V8_TARGET_ARCH := MIPS64, UNALIGNED_ACCESSES := False\<rparr>)
   \<and> BytecodeOperandShort (example_env\<lparr>V8_TARGET_ARCH := MIPS64, UNALIGNED_ACCESSES := False\<rparr>)
        example_state_short 0 = Some 0xFFFE
   \<and> BytecodeOperandShort example_env example_state_short 0 = Some 0xFFFE
   \<and> BytecodeOperandShortSignExtended
        (example_env\<lparr>V8_TARGET_ARCH := MIPS64, UNALIGNED_ACCESSES := False\<rparr>)
        example_state_short 0 = Some (- 2)
   \<and> BytecodeOperandShortSignExtended example_env example_state_short 0 = Some (- 2)"
proof -
  have direct: "BytecodeOperandShort example_env example_state_short 0 = Some 0xFFFE"
    by (simp add: BytecodeOperandShort_def DCHECK_def TargetSupportsUnalignedAccess_def
          example_env_fields example_state_short_fields Load_def load_int_2 IntPtrAdd_def
          BytecodeArrayTaggedPointer_def BytecodeOffset_def example_Parameter_def
          Int32Constant_in_range example_memory_def)
  have direct_sx:
      "BytecodeOperandShortSignExtended example_env example_state_short 0 = Some (- 2)"
    by (simp add: BytecodeOperandShortSignExtended_def DCHECK_def
          TargetSupportsUnalignedAccess_def kPointerSize_def ChangeInt32ToInt64_def
          example_env_fields example_state_short_fields Load_def load_int_2 IntPtrAdd_def
          BytecodeArrayTaggedPointer_def BytecodeOffset_def example_Parameter_def
          Int32Constant_in_range example_memory_def)
  have h: "TargetSupportsUnalignedAccess example_env"
      "\<not> TargetSupportsUnalignedAccess
           (example_env\<lparr>V8_TARGET_ARCH := MIPS64, UNALIGNED_ACCESSES := False\<rparr>)"
    by (simp_all add: TargetSupportsUnalignedAccess_def example_env_fields)
  show ?thesis
    using h direct direct_sx
      C1_bytewise_equals_direct[where e = example_env and a = MIPS64 and u = False
        and operand_index = 0 and s = example_state_short]
    by (simp add: example_env_fields example_state_short_fields)
qed

theorem C2_sign_extended_byte_witness:
  "(\<exists>v. BytecodeOperandSignExtended example_env example_state 1 = Some v \<and> sint v = - 3)
   \<and> (\<exists>v. BytecodeOperandSignExtended example_env
             (example_state\<lparr>memory := example_memory(0x1066 := 0xFF)\<rparr>) 1 = Some v
          \<and> sint v = - 1)
   \<and> (\<exists>v. BytecodeOperandSignExtended example_env
             (example_state\<lparr>memory := example_memory(0x1066 := 0x7F)\<rparr>) 1 = Some v
          \<and> sint v = 127)"
  using C2_sign_extended_byte[where e = example_env and operand_index = 1 and s = example_state]
    C2_sign_extended_byte[where e = example_env and operand_index = 1
      and s = "example_state\<lparr>memory := example_memory(0x1066 := 0xFF)\<rparr>"]
    C2_sign_extended_byte[where e = example_env and operand_index = 1
      and s = "example_state\<lparr>memory := example_memory(0x1066 := 0x7F)\<rparr>"]
  by (simp add: example_env_fields example_state_fields BytecodeArrayTaggedPointer_def
        BytecodeOffset_def example_Parameter_def Int32Constant_in_range example_memory_def)

theorem C7_register_operand_sign_extended_witness:
  "BytecodeOperandReg example_env example_state 1 = Some (- 3)
   \<and> BytecodeOperand example_env example_state 1 = Some 253
   \<and> BytecodeOperandReg example_env example_state_short 0 = Some (- 2)
   \<and> BytecodeOperandShort example_env example_state_short 0 = Some 65534"
proof -
  have b: "BytecodeOperandSignExtended example_env example_state 1 = Some (- 3)"
    by (simp add: BytecodeOperandSignExtended_def DCHECK_def kPointerSize_def
          ChangeInt32ToInt64_def example_env_fields example_state_fields Load_def load_int_1
          IntPtrAdd_def BytecodeArrayTaggedPointer_def BytecodeOffset_def example_Parameter_def
          Int32Constant_in_range example_memory_def)
  have u: "BytecodeOperand example_env example_state 1 = Some 253"
    by (simp add: BytecodeOperand_def DCHECK_def
          example_env_fields example_state_fields Load_def load_int_1
          IntPtrAdd_def BytecodeArrayTaggedPointer_def BytecodeOffset_def example_Parameter_def
          Int32Constant_in_range example_memory_def)
  have w: "BytecodeOperandShortSignExtended example_env example_state_short 0 = Some (- 2)"
    by (simp add: BytecodeOperandShortSignExtended_def DCHECK_def
          TargetSupportsUnalignedAccess_def kPointerSize_def ChangeInt32ToInt64_def
          example_env_fields example_state_short_fields Load_def load_int_2 IntPtrAdd_def
          BytecodeArrayTaggedPointer_def BytecodeOffset_def example_Parameter_def
          Int32Constant_in_range example_memory_def)
  have x: "BytecodeOperandShort example_env example_state_short 0 = Some 65534"
    by (simp add: BytecodeOperandShort_def DCHECK_def TargetSupportsUnalignedAccess_def
          example_env_fields example_state_short_fields Load_def load_int_2 IntPtrAdd_def
          BytecodeArrayTaggedPointer_def BytecodeOffset_def example_Parameter_def
          Int32Constant_in_range example_memory_def)
  show ?thesis
    using b u w x
      C7_register_operand_sign_extended[where e = example_env and s = example_state
        and operand_index = 1]
      C7_register_operand_sign_extended[where e = example_env and s = example_state_short
        and operand_index = 0]
    by (simp add: example_env_fields example_state_fields example_state_short_fields)
qed

theorem C8_register_arithmetic_witness:
  "RegisterLocation example_state (- 3) = 0x2000 - 3 * 8
   \<and> sint (NextRegister (- 3 :: 64 word)) = - 4"
  using C8_register_arithmetic[where s = example_state and i = "- 3"]
  by (simp add: RegisterFileRawPointer_def example_state_fields example_Parameter_def
        kPointerSize_def)

lemma example_pointer_size:
  "kPointerSize TYPE(64) = 8" "kPointerSizeLog2 TYPE(64) = 3"
  by (simp_all add: kPointerSize_def kPointerSizeLog2_def)

lemma example_getters:
  "GetAccumulator example_state = 0xAA"
  "GetContext example_state = 0xCC"
  "RegisterFileRawPointer example_state = 0x2000"
  "BytecodeOffset example_state = 100"
  "BytecodeArrayTaggedPointer example_state = 0x1000"
  "DispatchTableRawPointer example_state = 0x3000"
  "LoadStackPointer example_state = 0x8000"
  by (simp_all add: GetAccumulator_def GetContext_def RegisterFileRawPointer_def
        BytecodeOffset_def BytecodeArrayTaggedPointer_def DispatchTableRawPointer_def
        LoadStackPointer_def example_state_fields example_Parameter_def)

lemma read_bytes_8:
  "read_bytes m a 8 =
     [m a, m (a + 1), m (a + 2), m (a + 3), m (a + 4), m (a + 5), m (a + 6), m (a + 7)]"
  by (simp add: eval_nat_numeral add.assoc)

lemma example_Load_Pointer:
  "Load example_env s Pointer base index =
     from_le_bytes (read_bytes (memory s) (base + index) 8)"
  by (simp add: Load_def example_env_fields example_pointer_size load_int_def)

lemma example_stack_limit:
  assumes "memory s = example_memory"
  shows "Load example_env s Pointer 0x9000 0 = 0x7000"
  by (simp add: example_Load_Pointer assms read_bytes_8 example_memory_def)

lemma example_handler:
  assumes "memory s = example_memory"
  shows "Load example_env s Pointer 0x3000
     (Word32Shl (Load example_env s Uint8 0x1000 103) (Int32Constant 3)) = 0x5000"
proof -
  have "Load example_env s Uint8 0x1000 103 = 9"
    by (simp add: Load_def load_int_1 assms example_memory_def)
  moreover have "Word32Shl (9 :: 64 word) (Int32Constant 3) = 0x48"
    by (simp add: Word32Shl_def Int32Constant_in_range)
  ultimately show ?thesis
    by (simp add: example_Load_Pointer assms read_bytes_8 example_memory_def)
qed

lemma example_CallJS:
  "CallJS example_env example_state 0x11 0xCC 0x2000 2 =
     Inr (1, example_state
               \<lparr>memory := store_int True
                   (store_int True
                      (store_int True example_memory 0x2008 8 (0x6400000000 :: 64 word))
                      0x2010 8 (0x3000 :: 64 word))
                   0x2010 8 (0x4000 :: 64 word),
                stack_pointer := 0x8000,
                calls := [(InterpreterPushArgsAndCall, [0xCC, 2, 0x2000, 0x11])],
                stack_pointer_before_call_field := None,
                dispatch_table_var := 0x4000\<rparr>)"
proof -
  have "load_int True
          (store_int True
             (store_int True
                (store_int True example_memory 0x2008 8 (0x6400000000 :: 64 word))
                0x2010 8 (0x3000 :: 64 word))
             0x2010 8 (0x4000 :: 64 word)) 0x2010 8 = (0x4000 :: 64 word)"
    by (rule load_store_same) simp_all
  then show ?thesis
    by (simp add: CallJS_def CallStub_eq Let_def example_env_fields example_state_fields
          example_getters example_pointer_size example_callee_def Int32Constant_in_range)
qed

theorem C3_dispatch_table_reloaded_after_call_witness:
  "\<exists>r s' target. CallJS example_env example_state 0x11 0xCC 0x2000 2 = Inr (r, s')
      \<and> DispatchTableRawPointer example_state = 0x3000
      \<and> LoadRegister example_env s' 16 = 0x4000
      \<and> DispatchTableRawPointer s' = 0x4000
      \<and> DispatchTo example_env s' 103
           = (TailCall target [0xAA, 0x2000, 103, 0x1000, 0x4000, 0xCC], s')"
proof -
  let ?s' = "example_state
               \<lparr>memory := store_int True
                   (store_int True
                      (store_int True example_memory 0x2008 8 (0x6400000000 :: 64 word))
                      0x2010 8 (0x3000 :: 64 word))
                   0x2010 8 (0x4000 :: 64 word),
                stack_pointer := 0x8000,
                calls := [(InterpreterPushArgsAndCall, [0xCC, 2, 0x2000, 0x11])],
                stack_pointer_before_call_field := None,
                dispatch_table_var := 0x4000\<rparr>"
  note c = C3_dispatch_table_reloaded_after_call[where e = example_env and s = example_state,
      OF disjI1, OF example_CallJS]
  have slot: "LoadRegister example_env ?s' 16 = 0x4000"
    using c by (simp add: example_env_fields DispatchTableRawPointer_def)
  obtain target where d: "DispatchTo example_env ?s' 103 =
      (TailCall target [GetAccumulator ?s', RegisterFileRawPointer ?s', 103,
         BytecodeArrayTaggedPointer ?s', DispatchTableRawPointer ?s', GetContext ?s'], ?s')"
    using DispatchTo_untraced[where e = example_env and s = ?s'
        and new_bytecode_offset = 103]
    by (simp add: example_env_fields)
  have "DispatchTo example_env ?s' 103
           = (TailCall target [0xAA, 0x2000, 103, 0x1000, 0x4000, 0xCC], ?s')"
    using d
    by (simp add: GetAccumulator_def GetContext_def RegisterFileRawPointer_def
          BytecodeArrayTaggedPointer_def DispatchTableRawPointer_def example_state_fields
          example_Parameter_def)
  moreover have "DispatchTableRawPointer ?s' = 0x4000"
    by (simp add: DispatchTableRawPointer_def)
  ultimately have "CallJS example_env example_state 0x11 0xCC 0x2000 2 = Inr (1, ?s')
      \<and> DispatchTableRawPointer example_state = 0x3000
      \<and> LoadRegister example_env ?s' 16 = 0x4000
      \<and> DispatchTableRawPointer ?s' = 0x4000
      \<and> DispatchTo example_env ?s' 103
           = (TailCall target [0xAA, 0x2000, 103, 0x1000, 0x4000, 0xCC], ?s')"
    using example_CallJS slot by (simp add: example_getters)
  then show ?thesis by blast
qed



lemma example_DispatchTo_103:
  "DispatchTo example_env example_state 103
     = (TailCall 0x5000 [0xAA, 0x2000, 103, 0x1000, 0x3000, 0xCC], example_state)"
  using example_handler[of example_state]
  by (simp add: DispatchTo_untraced example_env_fields example_getters example_state_fields
        example_pointer_size)


theorem C6_jump_conditional_witness:
  "\<exists>target. JumpConditional example_env example_state 0 10
       = (TailCall target [0xAA, 0x2000, 103, 0x1000, 0x3000, 0xCC], example_state)
     \<and> JumpConditional example_env example_state 1 10
       = DispatchTo example_env example_state 110
     \<and> (103 :: 64 word) \<noteq> 110"
proof -
  note c = C6_jump_conditional[where e = example_env and s = example_state and delta = 10]
  have a: "JumpConditional example_env example_state 0 10
             = DispatchTo example_env example_state 103"
    using c[where condition = 0]
    by (simp add: example_env_fields example_getters Int32Constant_in_range)
  have b: "JumpConditional example_env example_state 1 10
             = DispatchTo example_env example_state 110"
    using c[where condition = 1]
    by (simp add: example_env_fields example_getters)
  show ?thesis
    using a b example_DispatchTo_103 by simp
qed

theorem C9_stack_check_witness:
  "StackCheck example_env example_state = Inr example_state
   \<and> LoadStackPointer (example_state\<lparr>stack_pointer := 0x6000\<rparr>)
       < Load example_env (example_state\<lparr>stack_pointer := 0x6000\<rparr>) Pointer
           (address_of_stack_limit example_env) 0
   \<and> (\<exists>s'. StackCheck example_env (example_state\<lparr>stack_pointer := 0x6000\<rparr>) = Inr s'
          \<and> calls s' = [(RuntimeFunction kStackGuard, [0xCC])])
   \<and> (\<exists>ret_value s'.
          StackCheck example_env
            (example_state\<lparr>stack_pointer := 0x6000, context_var := 0xBAD\<rparr>)
            = Inl (Return ret_value, s')
          \<and> calls s' = [(RuntimeFunction kStackGuard, [0xBAD]),
                         (RuntimeFunction kAbort, [0xBAD, 0x100000000])])"
proof -
  let ?low = "example_state\<lparr>stack_pointer := 0x6000\<rparr>"
  let ?bad = "example_state\<lparr>stack_pointer := 0x6000, context_var := 0xBAD\<rparr>"
  note above = C9_stack_check[where e = example_env and s = example_state]
  note below = C9_stack_check[where e = example_env and s = ?low]
  note bad = C9_stack_check[where e = example_env and s = ?bad]
  have a: "StackCheck example_env example_state = Inr example_state"
    using above example_stack_limit[of example_state]
    by (simp add: example_env_fields example_state_fields example_getters)
  have lt: "LoadStackPointer ?low
       < Load example_env ?low Pointer (address_of_stack_limit example_env) 0"
    using example_stack_limit[of ?low]
    by (simp add: example_env_fields example_state_fields LoadStackPointer_def)
  have lt': "LoadStackPointer ?bad
       < Load example_env ?bad Pointer (address_of_stack_limit example_env) 0"
    using example_stack_limit[of ?bad]
    by (simp add: example_env_fields example_state_fields LoadStackPointer_def)
  have b: "\<exists>s'. StackCheck example_env ?low = Inr s'
          \<and> calls s' = [(RuntimeFunction kStackGuard, [0xCC])]"
    using below lt
    by (auto simp: example_env_fields example_state_fields example_callee_def GetContext_def)
  have lim: "Load example_env ?bad Pointer 0x9000 0 = 0x7000"
    using example_stack_limit[of ?bad] by (simp add: example_state_fields)
  have "StackCheck example_env ?bad =
      (case CallStub example_env ?bad (RuntimeFunction kStackGuard) 0xBAD [] of
         Inl x \<Rightarrow> Inl x
       | Inr (_, s1) \<Rightarrow> Inr s1)"
    by (simp add: StackCheck_def Let_def lim Branch_def UintPtrGreaterThanOrEqual_def
          CallRuntime_CallStub example_env_fields LoadStackPointer_def GetContext_def
          example_state_fields DCHECK_def)
  moreover have "\<exists>s2. CallStub example_env ?bad (RuntimeFunction kStackGuard) 0xBAD [] =
      Inl (Abort example_env s2 1)"
    by (simp add: CallStub_eq Let_def example_env_fields example_state_fields
          example_callee_def split: prod.splits) (rule exI, rule refl)
  moreover have "\<exists>ret_value s'. Abort example_env s2 1 = (Return ret_value, s')"
    for s2 :: "64 state"
    by (simp add: Abort_eq Let_def split: prod.splits)
  ultimately obtain ret_value s' where
    c: "StackCheck example_env ?bad = Inl (Return ret_value, s')"
    by (metis sum.case(1))
  have "calls s' = [(RuntimeFunction kStackGuard, [0xBAD]),
                    (RuntimeFunction kAbort, [0xBAD, 0x100000000])]"
    using bad lt' c
    by (simp add: example_env_fields example_state_fields GetContext_def
          Int32Constant_in_range)
  then show ?thesis
    using a lt b c by blast
qed

theorem C10_set_context_witness:
  "LoadRegister_reg example_env (SetContext example_env example_state 0xDD) 3 = 0xDD
   \<and> GetContext (SetContext example_env example_state 0xDD) = 0xDD
   \<and> GetAccumulator (SetContext example_env example_state 0xDD) = 0xAA
   \<and> DispatchTableRawPointer (SetContext example_env example_state 0xDD) = 0x3000
   \<and> memory (SetContext example_env example_state 0xDD) 0x1064 = 7
   \<and> (\<exists>target. DispatchTo example_env (SetContext example_env example_state 0xDD) 103
         = (TailCall target [0xAA, 0x2000, 103, 0x1000, 0x3000, 0xDD],
            SetContext example_env example_state 0xDD))"
proof -
  let ?s' = "SetContext example_env example_state 0xDD"
  note c = C10_set_context[where e = example_env and s = example_state and v = "0xDD",
      simplified example_env_fields example_pointer_size]
  have slot: "LoadRegister_reg example_env ?s' 3 = 0xDD" and ctx: "GetContext ?s' = 0xDD"
    using c by simp_all
  have rec: "?s' = example_state\<lparr>context_var := 0xDD, memory := memory ?s'\<rparr>"
    using c by simp
  have acc: "GetAccumulator ?s' = 0xAA" "DispatchTableRawPointer ?s' = 0x3000"
      "RegisterFileRawPointer ?s' = 0x2000" "BytecodeArrayTaggedPointer ?s' = 0x1000"
    by (subst rec, simp add: GetAccumulator_def DispatchTableRawPointer_def
          RegisterFileRawPointer_def BytecodeArrayTaggedPointer_def
          example_state_fields example_Parameter_def)+
  have "(0x1064 :: 64 word) \<noteq> 0x2018 + of_nat i" if "i < 8" for i :: nat
    using ranges_disjoint[where a = "0x2018 :: 64 word" and b = "0x1064" and n = 8
        and i = i and j = 0] that
    by simp
  then have mem: "memory ?s' 0x1064 = 7"
    using c by (simp add: example_getters Int32Constant_in_range example_state_fields
        example_memory_def)
  obtain target where "DispatchTo example_env ?s' 103 =
      (TailCall target [GetAccumulator ?s', RegisterFileRawPointer ?s', 103,
         BytecodeArrayTaggedPointer ?s', DispatchTableRawPointer ?s', GetContext ?s'], ?s')"
    using DispatchTo_untraced[where e = example_env and s = ?s' and new_bytecode_offset = 103]
    by (simp add: example_env_fields)
  then have "DispatchTo example_env ?s' 103
         = (TailCall target [0xAA, 0x2000, 103, 0x1000, 0x3000, 0xDD], ?s')"
    using acc ctx by simp
  then show ?thesis
    using slot ctx acc mem by blast
qed

end
